theory Spec2Isabelle
  imports Complex_Main
begin

section \<open>Live quiz backend: rooms, timed questions, scoring, reconnection\<close>

text \<open>
  A shallow embedding of \<^verbatim>\<open>app.py\<close>. The relational store (tables \<^verbatim>\<open>rooms\<close>,
  \<^verbatim>\<open>players\<close>, \<^verbatim>\<open>answers\<close>), the two process-wide dictionaries
  (\<^verbatim>\<open>socket_index\<close>, \<^verbatim>\<open>rate_limits\<close>), the transport's broadcast groups and the
  events sent so far form one record, \<open>world\<close>; every handler is a function from the
  world before to the world after. What a handler reads from outside (the connection id,
  the payload, the clocks, the random draws) is an argument.
\<close>

subsection \<open>Python numbers\<close>

text \<open>
  Python's \<^verbatim>\<open>float\<close> is IEEE binary64. The code divides, multiplies and subtracts floats
  and truncates one to an integer, so the model rounds every such result to the nearest
  value with a 53-bit significand, ties to even. Values are real numbers; \<open>fl\<close> is the
  rounding. Datetimes lie between the years 1 and 9999, so nothing here leaves the
  normal range of binary64 and neither overflow nor gradual underflow is modelled.
\<close>

fun bits :: "nat \<Rightarrow> nat" where
  "bits n = (if n = 0 then 0 else Suc (bits (n div 2)))"

declare bits.simps [simp del]

definition pow2 :: "int \<Rightarrow> real" where
  "pow2 k = (if 0 \<le> k then 2 ^ nat k else 1 / 2 ^ nat (- k))"

definition round_half_even :: "real \<Rightarrow> int" where
  "round_half_even x =
     (let f = \<lfloor>x\<rfloor>; r = x - of_int f
      in if r < 1 / 2 then f else if 1 / 2 < r then f + 1 else if even f then f else f + 1)"

text \<open>
  For \<open>a > 0\<close>, the binary exponent \<open>e\<close>: \<open>2 ^ e \<le> a < 2 ^ (e + 1)\<close>. From \<open>1\<close> on it is
  one less than the number of bits of the integer part; below \<open>1\<close> it is \<open>- n\<close> for the
  least \<open>n\<close> with \<open>1 / a \<le> 2 ^ n\<close>.
\<close>

definition exponent :: "real \<Rightarrow> int" where
  "exponent a =
     (if 1 \<le> a then int (bits (nat \<lfloor>a\<rfloor>)) - 1
      else - int (bits (nat (\<lceil>1 / a\<rceil> - 1))))"

definition fl :: "real \<Rightarrow> real" where
  "fl x =
     (if x = 0 then 0
      else let a = \<bar>x\<bar>; e = exponent a; m = round_half_even (a * pow2 (52 - e))
           in sgn x * of_int m * pow2 (e - 52))"

text \<open>\<^verbatim>\<open>int(x)\<close> on a float truncates toward zero.\<close>

definition py_int :: "real \<Rightarrow> int" where
  "py_int x = (if 0 \<le> x then \<lfloor>x\<rfloor> else \<lceil>x\<rceil>)"

subsection \<open>Time\<close>

text \<open>
  A \<^verbatim>\<open>datetime\<close> and a \<^verbatim>\<open>TIMESTAMPTZ\<close> both count microseconds; a timestamp is the
  number of microseconds since the epoch. \<^verbatim>\<open>timedelta.total_seconds()\<close> and
  \<^verbatim>\<open>datetime.timestamp()\<close> divide a microsecond count by \<open>10^6\<close> as floats.
\<close>

type_synonym timestamp = int

definition total_seconds :: "int \<Rightarrow> real" where
  "total_seconds us = fl (of_int us / 1000000)"

definition timestamp :: "timestamp \<Rightarrow> real" where
  "timestamp t = total_seconds t"

definition seconds :: "int \<Rightarrow> int" where
  "seconds n = n * 1000000"

subsection \<open>Configuration and the question table\<close>

definition ROOM_TTL_SECONDS :: int where "ROOM_TTL_SECONDS = 10 * 60"
definition MAX_PLAYERS_PER_ROOM :: int where "MAX_PLAYERS_PER_ROOM = 50"
definition JOIN_RATE_LIMIT :: int where "JOIN_RATE_LIMIT = 5"
definition JOIN_RATE_WINDOW :: int where "JOIN_RATE_WINDOW = 10"
definition ANSWER_RATE_LIMIT :: int where "ANSWER_RATE_LIMIT = 3"
definition ANSWER_RATE_WINDOW :: int where "ANSWER_RATE_WINDOW = 3"
definition CREATE_ROOM_LIMIT :: int where "CREATE_ROOM_LIMIT = 3"
definition CREATE_ROOM_WINDOW :: int where "CREATE_ROOM_WINDOW = 60"

record question =
  q_text :: string
  q_options :: "string list"
  q_correct_index :: int
  q_duration :: int

text \<open>The texts of the source are Cyrillic; they are given as their UTF-8 bytes.\<close>

definition utf8 :: "nat list \<Rightarrow> string" where
  "utf8 = map char_of"

definition QUESTIONS :: "question list" where
  "QUESTIONS =
     [\<lparr>q_text = utf8 [208, 161, 208, 186, 209, 150, 208, 187, 209, 140, 208, 186, 208, 184, 32,
                       208, 177, 209, 131, 208, 180, 208, 181, 32, 50, 32, 43, 32, 50, 32, 63],
       q_options = [''3'', ''4'', ''5'', ''6''],
       q_correct_index = 1,
       q_duration = 15\<rparr>,
      \<lparr>q_text = utf8 [208, 161, 209, 130, 208, 190, 208, 187, 208, 184, 209, 134, 209, 143, 32,
                       208, 163, 208, 186, 209, 128, 208, 176, 209, 151, 208, 189, 208, 184, 63],
       q_options = [utf8 [208, 155, 209, 140, 208, 178, 209, 150, 208, 178],
                    utf8 [208, 165, 208, 176, 209, 128, 208, 186, 209, 150, 208, 178],
                    utf8 [208, 154, 208, 184, 209, 151, 208, 178],
                    utf8 [208, 158, 208, 180, 208, 181, 209, 129, 208, 176]],
       q_correct_index = 2,
       q_duration = 15\<rparr>]"

subsection \<open>The store\<close>

type_synonym sid = string
type_synonym pin = string
type_synonym token = string

text \<open>
  The column \<^verbatim>\<open>rooms.state\<close> is a string; the code writes only the four literals
  below into it, all in upper case, so the case-insensitive comparison of
  \<^verbatim>\<open>require_room_state\<close> and the exact one of the SQL text coincide.
\<close>

datatype room_state = LOBBY | QUESTION | RESULTS | FINISHED

record room =
  r_id :: nat
  r_pin :: pin
  r_host_token :: token
  r_state :: room_state
  r_current_question_index :: int
  r_question_started_at :: "timestamp option"
  r_question_ends_at :: "timestamp option"
  r_host_connected :: bool
  r_host_disconnected_at :: "timestamp option"
  r_created_at :: timestamp
  r_last_activity_at :: timestamp
  r_closed_at :: "timestamp option"

record player =
  p_id :: nat
  p_room_id :: nat
  p_player_token :: token
  p_name :: string
  p_score :: int
  p_connected :: bool
  p_created_at :: timestamp
  p_last_seen_at :: timestamp

record answer =
  a_id :: nat
  a_room_id :: nat
  a_player_token :: token
  a_question_index :: int
  a_option_index :: int
  a_answered_at :: timestamp

subsection \<open>Connections, events, the world\<close>

datatype role = Host | Player

record meta =
  m_pin :: pin
  m_role :: role
  m_token :: token

type_synonym lb_entry = "string \<times> int \<times> bool"

record question_view =
  qv_text :: string
  qv_options :: "string list"
  qv_ends_at :: real

record results_view =
  rv_correct_index :: int
  rv_leaderboard :: "lb_entry list"

record player_payload =
  pp_state :: room_state
  pp_score :: int
  pp_current_question_index :: int
  pp_question :: "question_view option"
  pp_results :: "results_view option"

record host_payload =
  hp_state :: room_state
  hp_current_question_index :: int
  hp_players :: "lb_entry list"
  hp_question :: "question_view option"
  hp_results :: "results_view option"

datatype event =
    Error string
  | JoinError string
  | ReconnectError string
  | RoomCreated pin token
  | Joined token
  | PlayerJoined string
  | Reconnected player_payload
  | HostReconnected host_payload
  | QuestionStarted int string "string list" real
  | QuestionResults int "lb_entry list"
  | GameFinished "lb_entry list"
  | RoomClosed string

text \<open>
  \<^verbatim>\<open>emit(...)\<close> inside a handler answers the calling connection;
  \<^verbatim>\<open>socketio.emit(..., room=pin)\<close> goes to the broadcast group of the pin.
\<close>

datatype dest = ToSid sid | ToRoom pin

datatype error = RuntimeError string | UniqueViolation string | TypeError string

record world =
  rooms :: "room list"
  players :: "player list"
  answers :: "answer list"
  room_seq :: nat
  player_seq :: nat
  answer_seq :: nat
  socket_index :: "sid \<rightharpoonup> meta"
  rate_limits :: "string \<rightharpoonup> real list"
  groups :: "(sid \<times> pin) set"
  outbox :: "(dest \<times> event) list"

definition emit :: "dest \<Rightarrow> event \<Rightarrow> world \<Rightarrow> world" where
  "emit d e w = w\<lparr>outbox := outbox w @ [(d, e)]\<rparr>"

definition join_room :: "sid \<Rightarrow> pin \<Rightarrow> world \<Rightarrow> world" where
  "join_room s pin w = w\<lparr>groups := insert (s, pin) (groups w)\<rparr>"

text \<open>\<^verbatim>\<open>UPDATE rooms SET ... WHERE ...\<close> and \<^verbatim>\<open>UPDATE players SET ... WHERE ...\<close>.\<close>

definition update_rooms :: "(room \<Rightarrow> bool) \<Rightarrow> (room \<Rightarrow> room) \<Rightarrow> world \<Rightarrow> world" where
  "update_rooms P f w = w\<lparr>rooms := map (\<lambda>r. if P r then f r else r) (rooms w)\<rparr>"

definition update_players :: "(player \<Rightarrow> bool) \<Rightarrow> (player \<Rightarrow> player) \<Rightarrow> world \<Rightarrow> world" where
  "update_players P f w = w\<lparr>players := map (\<lambda>p. if P p then f p else p) (players w)\<rparr>"

subsection \<open>Rate limiting\<close>

text \<open>
  \<^verbatim>\<open>is_rate_limited\<close>: the bucket of the key (created empty by \<^verbatim>\<open>setdefault\<close>) is
  pruned in place, then either the call is refused or the reading of \<^verbatim>\<open>time.time()\<close>
  is appended. The result is the returned flag and the dictionary afterwards.
\<close>

definition bucket_of :: "(string \<rightharpoonup> real list) \<Rightarrow> string \<Rightarrow> real list" where
  "bucket_of rl key = (case rl key of None \<Rightarrow> [] | Some b \<Rightarrow> b)"

definition is_rate_limited ::
  "string \<Rightarrow> int \<Rightarrow> int \<Rightarrow> real \<Rightarrow> (string \<rightharpoonup> real list) \<Rightarrow> bool \<times> (string \<rightharpoonup> real list)" where
  "is_rate_limited key limit window now rl =
     (let bucket = filter (\<lambda>t. fl (now - t) < of_int window) (bucket_of rl key)
      in if limit \<le> int (length bucket) then (True, rl(key \<mapsto> bucket))
         else (False, rl(key \<mapsto> bucket @ [now])))"

text \<open>Successive calls for one key, at the given clock readings; the flags in order.\<close>

fun attempts ::
  "string \<Rightarrow> int \<Rightarrow> int \<Rightarrow> real list \<Rightarrow> (string \<rightharpoonup> real list) \<Rightarrow> bool list \<times> (string \<rightharpoonup> real list)" where
  "attempts key limit window [] rl = ([], rl)"
| "attempts key limit window (t # ts) rl =
     (let r = is_rate_limited key limit window t rl;
          rs = attempts key limit window ts (snd r)
      in (fst r # fst rs, snd rs))"

text \<open>
  Every reading of \<open>ts\<close> falls inside the window of the readings before it (those of
  \<open>b\<close> and the earlier ones of \<open>ts\<close>), by the subtraction the code performs.
\<close>

fun in_window :: "int \<Rightarrow> real list \<Rightarrow> real list \<Rightarrow> bool" where
  "in_window window b [] = True"
| "in_window window b (t # ts) =
     ((\<forall>x \<in> set b. fl (t - x) < of_int window) \<and> in_window window (b @ [t]) ts)"

subsection \<open>Helpers\<close>

text \<open>
  \<^verbatim>\<open>generate_pin\<close> draws six random digits. The draws of one call of
  \<^verbatim>\<open>generate_unique_pin\<close> are the argument \<open>draw\<close>: \<open>draw i\<close> is the pin of the
  \<open>i\<close>-th iteration.
\<close>

definition get_room_by_pin :: "world \<Rightarrow> pin \<Rightarrow> room option" where
  "get_room_by_pin w pin = find (\<lambda>r. r_pin r = pin \<and> r_closed_at r = None) (rooms w)"

fun generate_unique_pin_loop :: "world \<Rightarrow> (nat \<Rightarrow> pin) \<Rightarrow> nat \<Rightarrow> nat \<Rightarrow> error + pin" where
  "generate_unique_pin_loop w draw i 0 = Inl (RuntimeError ''Failed to generate unique PIN'')"
| "generate_unique_pin_loop w draw i (Suc n) =
     (let pin = draw i
      in if get_room_by_pin w pin = None then Inr pin
         else generate_unique_pin_loop w draw (Suc i) n)"

definition generate_unique_pin :: "world \<Rightarrow> (nat \<Rightarrow> pin) \<Rightarrow> nat \<Rightarrow> error + pin" where
  "generate_unique_pin w draw max_tries = generate_unique_pin_loop w draw 0 max_tries"

definition require_room_state :: "room \<Rightarrow> room_state list \<Rightarrow> bool" where
  "require_room_state room allowed_states = (r_state room \<in> set allowed_states)"

text \<open>
  \<^verbatim>\<open>ORDER BY score DESC, created_at ASC\<close>: an insertion sort on the rows of the room;
  rows equal in both keys keep their table order.
\<close>

definition lb_before :: "player \<Rightarrow> player \<Rightarrow> bool" where
  "lb_before a b =
     (p_score b < p_score a \<or> (p_score a = p_score b \<and> p_created_at a \<le> p_created_at b))"

fun lb_insert :: "player \<Rightarrow> player list \<Rightarrow> player list" where
  "lb_insert p [] = [p]"
| "lb_insert p (x # xs) = (if lb_before p x then p # x # xs else x # lb_insert p xs)"

definition leaderboard_for_room_id :: "world \<Rightarrow> nat \<Rightarrow> lb_entry list" where
  "leaderboard_for_room_id w room_id =
     map (\<lambda>p. (p_name p, p_score p, p_connected p))
       (foldr lb_insert (filter (\<lambda>p. p_room_id p = room_id) (players w)) [])"

definition touch_room_activity :: "nat \<Rightarrow> timestamp \<Rightarrow> world \<Rightarrow> world" where
  "touch_room_activity room_id dbnow w =
     update_rooms (\<lambda>r. r_id r = room_id) (\<lambda>r. r\<lparr>r_last_activity_at := dbnow\<rparr>) w"

definition close_room :: "pin \<Rightarrow> string \<Rightarrow> timestamp \<Rightarrow> world \<Rightarrow> world" where
  "close_room pin reason dbnow w =
     (case get_room_by_pin w pin of
        None \<Rightarrow> w
      | Some room \<Rightarrow>
          emit (ToRoom pin) (RoomClosed reason)
            (update_rooms (\<lambda>r. r_id r = r_id room)
               (\<lambda>r. r\<lparr>r_closed_at := Some dbnow, r_state := FINISHED, r_last_activity_at := dbnow\<rparr>) w))"

subsection \<open>Connecting and disconnecting\<close>

text \<open>
  The payload fields of the events are strings, or absent (\<open>None\<close>: the key is missing,
  its value is null, or there is no payload at all). \<open>uuid_str s\<close> stands for
  \<^verbatim>\<open>str(uuid.UUID(s))\<close>, and is \<open>None\<close> where the constructor raises; it is
  an argument \<open>U\<close> of the handlers that parse a token, so that nothing is assumed of it.
  \<open>dbnow\<close> is the reading of the store's clock by the statements of the handler, \<open>now\<close>
  the reading of the process's clock by \<^verbatim>\<open>utc_now()\<close>, \<open>t\<close> that of \<^verbatim>\<open>time.time()\<close>.
\<close>

definition falsy :: "string option \<Rightarrow> bool" where
  "falsy x = (x = None \<or> x = Some [])"

definition on_connect :: "sid \<Rightarrow> world \<Rightarrow> world" where
  "on_connect s w = w"

text \<open>
  After the handler has run the transport takes the connection out of every broadcast
  group.
\<close>

definition leave_all :: "sid \<Rightarrow> world \<Rightarrow> world" where
  "leave_all s w = w\<lparr>groups := {g \<in> groups w. fst g \<noteq> s}\<rparr>"

definition on_disconnect :: "(string \<Rightarrow> token option) \<Rightarrow> sid \<Rightarrow> timestamp \<Rightarrow> world \<Rightarrow> world" where
  "on_disconnect U s dbnow w =
     leave_all s
       (case socket_index w s of
          None \<Rightarrow> w
        | Some meta \<Rightarrow>
            (let w1 = w\<lparr>socket_index := (socket_index w)(s := None)\<rparr>
             in case (if m_pin meta \<noteq> [] then get_room_by_pin w1 (m_pin meta) else None) of
                  None \<Rightarrow> w1
                | Some room \<Rightarrow>
                    if m_role meta = Host then
                      update_rooms (\<lambda>r. r_id r = r_id room)
                        (\<lambda>r. r\<lparr>r_host_connected := False, r_host_disconnected_at := Some dbnow,
                               r_last_activity_at := dbnow\<rparr>) w1
                    else if m_role meta = Player \<and> m_token meta \<noteq> [] then
                      (case U (m_token meta) of
                         None \<Rightarrow> w1
                       | Some player_token \<Rightarrow>
                           update_players
                             (\<lambda>p. p_room_id p = r_id room \<and> p_player_token p = player_token)
                             (\<lambda>p. p\<lparr>p_connected := False, p_last_seen_at := dbnow\<rparr>) w1)
                    else w1))"

subsection \<open>Host: create room\<close>

text \<open>
  \<^verbatim>\<open>INSERT INTO rooms\<close>: the sequence of \<^verbatim>\<open>id\<close> advances, then the constraint
  \<^verbatim>\<open>pin VARCHAR(6) UNIQUE\<close> of the table is checked against every row, open or closed.
\<close>

definition insert_room :: "pin \<Rightarrow> token \<Rightarrow> timestamp \<Rightarrow> world \<Rightarrow> error option \<times> world" where
  "insert_room pin host_token dbnow w =
     (let w1 = w\<lparr>room_seq := Suc (room_seq w)\<rparr>
      in if \<exists>r \<in> set (rooms w). r_pin r = pin then (Some (UniqueViolation ''rooms_pin_key''), w1)
         else (None,
               w1\<lparr>rooms := rooms w @
                     [\<lparr>r_id = Suc (room_seq w), r_pin = pin, r_host_token = host_token,
                       r_state = LOBBY, r_current_question_index = - 1,
                       r_question_started_at = None, r_question_ends_at = None,
                       r_host_connected = True, r_host_disconnected_at = None,
                       r_created_at = dbnow, r_last_activity_at = dbnow, r_closed_at = None\<rparr>]\<rparr>))"

text \<open>
  \<open>host_token\<close> is \<^verbatim>\<open>str(uuid.uuid4())\<close>. An exception leaves the handler with what
  was done before it; it is the first component of the result.
\<close>

definition create_room ::
  "sid \<Rightarrow> (nat \<Rightarrow> pin) \<Rightarrow> token \<Rightarrow> real \<Rightarrow> timestamp \<Rightarrow> world \<Rightarrow> error option \<times> world" where
  "create_room s draw host_token t dbnow w =
     (let lim = is_rate_limited (''create:'' @ s) CREATE_ROOM_LIMIT CREATE_ROOM_WINDOW t
                  (rate_limits w);
          w1 = w\<lparr>rate_limits := snd lim\<rparr>
      in if fst lim then
           (None, emit (ToSid s) (Error ''Too many rooms created. Slow down.'') w1)
         else
           (case generate_unique_pin w1 draw 20 of
              Inl e \<Rightarrow> (Some e, w1)
            | Inr pin \<Rightarrow>
                (case insert_room pin host_token dbnow w1 of
                   (Some e, w2) \<Rightarrow> (Some e, w2)
                 | (None, w2) \<Rightarrow>
                     (None,
                      emit (ToSid s) (RoomCreated pin host_token)
                        ((join_room s pin w2)
                           \<lparr>socket_index := (socket_index w2)
                              (s \<mapsto> \<lparr>m_pin = pin, m_role = Host, m_token = host_token\<rparr>)\<rparr>)))))"

subsection \<open>Player: join room\<close>

record join_data =
  jd_pin :: "string option"
  jd_name :: "string option"

text \<open>
  \<^verbatim>\<open>str.strip()\<close>. A string of a payload is the list of its code points, of which a
  character here holds those below 256; these are the ones among them that Python counts
  as white space. (The question texts above are only ever sent, never inspected, and are
  given as bytes.)
\<close>

definition py_isspace :: "char \<Rightarrow> bool" where
  "py_isspace c = (of_char c \<in> {9, 10, 11, 12, 13, 28, 29, 30, 31, 32, 133, 160 :: nat})"

definition py_strip :: "string \<Rightarrow> string" where
  "py_strip x = rev (dropWhile py_isspace (rev (dropWhile py_isspace x)))"

text \<open>A value that is \<^verbatim>\<open>None\<close> or the empty string is false in a condition.\<close>

definition present :: "string option \<Rightarrow> string option" where
  "present x = (case x of None \<Rightarrow> None | Some v \<Rightarrow> if v = [] then None else Some v)"

text \<open>
  \<^verbatim>\<open>INSERT INTO players\<close>, under \<^verbatim>\<open>UNIQUE(room_id, player_token)\<close>.
\<close>

definition insert_player ::
  "nat \<Rightarrow> token \<Rightarrow> string \<Rightarrow> timestamp \<Rightarrow> world \<Rightarrow> error option \<times> world" where
  "insert_player room_id player_token name dbnow w =
     (let w1 = w\<lparr>player_seq := Suc (player_seq w)\<rparr>
      in if \<exists>p \<in> set (players w). p_room_id p = room_id \<and> p_player_token p = player_token
         then (Some (UniqueViolation ''players_room_id_player_token_key''), w1)
         else (None,
               w1\<lparr>players := players w @
                     [\<lparr>p_id = Suc (player_seq w), p_room_id = room_id,
                       p_player_token = player_token, p_name = name, p_score = 0,
                       p_connected = True, p_created_at = dbnow, p_last_seen_at = dbnow\<rparr>]\<rparr>))"

definition join_game ::
  "sid \<Rightarrow> join_data \<Rightarrow> token \<Rightarrow> real \<Rightarrow> timestamp \<Rightarrow> world \<Rightarrow> error option \<times> world" where
  "join_game s data player_token t dbnow w =
     (let lim = is_rate_limited (''join:'' @ s) JOIN_RATE_LIMIT JOIN_RATE_WINDOW t (rate_limits w);
          w1 = w\<lparr>rate_limits := snd lim\<rparr>
      in if fst lim then (None, emit (ToSid s) (JoinError ''Too many join attempts'') w1)
         else
           (let name = py_strip (case jd_name data of None \<Rightarrow> [] | Some n \<Rightarrow> n)
            in case present (jd_pin data) of
                 None \<Rightarrow> (None, emit (ToSid s) (JoinError ''Invalid PIN'') w1)
               | Some pin \<Rightarrow>
                   if length pin \<noteq> 6 then (None, emit (ToSid s) (JoinError ''Invalid PIN'') w1)
                   else if name = [] \<or> 40 < length name then
                     (None, emit (ToSid s) (JoinError ''Invalid name'') w1)
                   else
                     (case get_room_by_pin w1 pin of
                        None \<Rightarrow> (None, emit (ToSid s) (JoinError ''Room not found'') w1)
                      | Some room \<Rightarrow>
                          if r_state room = FINISHED then
                            (None, emit (ToSid s) (JoinError ''Game finished'') w1)
                          else if MAX_PLAYERS_PER_ROOM
                                    \<le> int (length (filter (\<lambda>p. p_room_id p = r_id room) (players w1)))
                          then (None, emit (ToSid s) (JoinError ''Room is full'') w1)
                          else
                            (case insert_player (r_id room) player_token name dbnow w1 of
                               (Some e, w2) \<Rightarrow> (Some e, w2)
                             | (None, w2) \<Rightarrow>
                                 (let w3 = touch_room_activity (r_id room) dbnow w2;
                                      w4 = (join_room s pin w3)
                                             \<lparr>socket_index := (socket_index w3)
                                                (s \<mapsto> \<lparr>m_pin = pin, m_role = Player,
                                                       m_token = player_token\<rparr>)\<rparr>
                                  in (None,
                                      emit (ToRoom pin) (PlayerJoined name)
                                        (emit (ToSid s) (Joined player_token) w4)))))))"

subsection \<open>Reconnection\<close>

record player_ref =
  pr_pin :: "string option"
  pr_player_token :: "string option"

record host_ref =
  hr_pin :: "string option"
  hr_host_token :: "string option"

definition question_in_range :: "int \<Rightarrow> bool" where
  "question_in_range q_index = (0 \<le> q_index \<and> q_index < int (length QUESTIONS))"

definition hydrate_question :: "room \<Rightarrow> question_view option" where
  "hydrate_question room =
     (case r_question_ends_at room of
        None \<Rightarrow> None
      | Some ends_at \<Rightarrow>
          if r_state room = QUESTION \<and> question_in_range (r_current_question_index room) then
            (let q = QUESTIONS ! nat (r_current_question_index room)
             in Some \<lparr>qv_text = q_text q, qv_options = q_options q,
                      qv_ends_at = timestamp ends_at\<rparr>)
          else None)"

definition hydrate_results :: "world \<Rightarrow> room \<Rightarrow> results_view option" where
  "hydrate_results w room =
     (if r_state room = RESULTS \<and> question_in_range (r_current_question_index room) then
        (let q = QUESTIONS ! nat (r_current_question_index room)
         in Some \<lparr>rv_correct_index = q_correct_index q,
                  rv_leaderboard = leaderboard_for_room_id w (r_id room)\<rparr>)
      else None)"

definition reconnect_player ::
  "(string \<Rightarrow> token option) \<Rightarrow> sid \<Rightarrow> player_ref \<Rightarrow> timestamp \<Rightarrow> world \<Rightarrow> world" where
  "reconnect_player U s data dbnow w =
     (case present (pr_pin data) of
        None \<Rightarrow> emit (ToSid s) (ReconnectError ''Missing data'') w
      | Some pin \<Rightarrow>
     (case present (pr_player_token data) of
        None \<Rightarrow> emit (ToSid s) (ReconnectError ''Missing data'') w
      | Some player_token_s \<Rightarrow>
     (case get_room_by_pin w pin of
        None \<Rightarrow> emit (ToSid s) (ReconnectError ''Room not found'') w
      | Some room \<Rightarrow>
     (case U player_token_s of
        None \<Rightarrow> emit (ToSid s) (ReconnectError ''Invalid token'') w
      | Some player_token \<Rightarrow>
     (case find (\<lambda>p. p_room_id p = r_id room \<and> p_player_token p = player_token) (players w) of
        None \<Rightarrow> emit (ToSid s) (ReconnectError ''Player not found'') w
      | Some player \<Rightarrow>
          (let w1 = update_players (\<lambda>p. p_id p = p_id player)
                      (\<lambda>p. p\<lparr>p_connected := True, p_last_seen_at := dbnow\<rparr>) w;
               w2 = touch_room_activity (r_id room) dbnow w1;
               w3 = (join_room s pin w2)
                      \<lparr>socket_index := (socket_index w2)
                         (s \<mapsto> \<lparr>m_pin = pin, m_role = Player, m_token = player_token\<rparr>)\<rparr>
           in emit (ToSid s)
                (Reconnected
                   \<lparr>pp_state = r_state room, pp_score = p_score player,
                    pp_current_question_index = r_current_question_index room,
                    pp_question = hydrate_question room,
                    pp_results = hydrate_results w3 room\<rparr>) w3))))))"

definition reconnect_host ::
  "(string \<Rightarrow> token option) \<Rightarrow> sid \<Rightarrow> host_ref \<Rightarrow> timestamp \<Rightarrow> world \<Rightarrow> world" where
  "reconnect_host U s data dbnow w =
     (case present (hr_pin data) of
        None \<Rightarrow> emit (ToSid s) (ReconnectError ''Missing data'') w
      | Some pin \<Rightarrow>
     (case present (hr_host_token data) of
        None \<Rightarrow> emit (ToSid s) (ReconnectError ''Missing data'') w
      | Some host_token_s \<Rightarrow>
     (case get_room_by_pin w pin of
        None \<Rightarrow> emit (ToSid s) (ReconnectError ''Room not found'') w
      | Some room \<Rightarrow>
     (case U host_token_s of
        None \<Rightarrow> emit (ToSid s) (ReconnectError ''Invalid host token'') w
      | Some host_token \<Rightarrow>
          if r_host_token room \<noteq> host_token then
            emit (ToSid s) (ReconnectError ''Invalid host token'') w
          else
            (let w1 = update_rooms (\<lambda>r. r_id r = r_id room)
                        (\<lambda>r. r\<lparr>r_host_connected := True, r_host_disconnected_at := None,
                               r_last_activity_at := dbnow\<rparr>) w;
                 w2 = (join_room s pin w1)
                        \<lparr>socket_index := (socket_index w1)
                           (s \<mapsto> \<lparr>m_pin = pin, m_role = Host, m_token = host_token\<rparr>)\<rparr>
             in emit (ToSid s)
                  (HostReconnected
                     \<lparr>hp_state = r_state room,
                      hp_current_question_index = r_current_question_index room,
                      hp_players = leaderboard_for_room_id w2 (r_id room),
                      hp_question = hydrate_question room,
                      hp_results = hydrate_results w2 room\<rparr>) w2)))))"

subsection \<open>Questions: start and finalize\<close>

definition start_question :: "pin \<Rightarrow> timestamp \<Rightarrow> world \<Rightarrow> world" where
  "start_question pin dbnow w =
     (case get_room_by_pin w pin of
        None \<Rightarrow> w
      | Some room \<Rightarrow>
          if \<not> require_room_state room [LOBBY, RESULTS] then w
          else if \<not> question_in_range (r_current_question_index room) then w
          else
            (let q_index = r_current_question_index room;
                 question = QUESTIONS ! nat q_index;
                 duration = q_duration question;
                 w1 = update_rooms (\<lambda>r. r_id r = r_id room)
                        (\<lambda>r. r\<lparr>r_state := QUESTION,
                               r_question_started_at := Some dbnow,
                               r_question_ends_at := Some (dbnow + seconds duration),
                               r_last_activity_at := dbnow\<rparr>) w
             in case get_room_by_pin w1 pin of
                  None \<Rightarrow> w1
                | Some room2 \<Rightarrow>
                    (case r_question_ends_at room2 of
                       None \<Rightarrow> w1
                     | Some ends_at \<Rightarrow>
                         emit (ToRoom pin)
                           (QuestionStarted q_index (q_text question) (q_options question)
                              (timestamp ends_at)) w1)))"

text \<open>
  The points of one correct answer: the lines between the test of the option and the
  \<^verbatim>\<open>UPDATE players\<close> in the loop of \<^verbatim>\<open>finish_question_if_due\<close>.
\<close>

definition points_for :: "timestamp \<Rightarrow> timestamp \<Rightarrow> int \<Rightarrow> int" where
  "points_for ends_at answered_at duration =
     (let time_left = total_seconds (ends_at - answered_at);
          time_left = (if time_left < 0 then 0 else time_left);
          bonus = py_int (fl (fl (time_left / of_int (max 1 duration)) * 500));
          bonus = (if bonus < 0 then 0 else bonus)
      in 1000 + bonus)"

text \<open>
  The points as the specification words them, in exact arithmetic: \<open>1000\<close> plus the
  floor of \<open>(max 0 time_left / max 1 duration) * 500\<close>, the bonus not below \<open>0\<close>.
\<close>

definition spec_points :: "timestamp \<Rightarrow> timestamp \<Rightarrow> int \<Rightarrow> int" where
  "spec_points ends_at answered_at duration =
     1000 + max 0 \<lfloor>max 0 (real_of_int (ends_at - answered_at) / 1000000)
                      / real_of_int (max 1 duration) * 500\<rfloor>"

text \<open>
  The loop over the fetched answers. \<open>ends_at\<close> is the column returned by the
  conditional update; were it null, the subtraction at the first correct answer would
  raise and end the loop there, with the updates made so far committed. The column
  \<^verbatim>\<open>score\<close> is a 32-bit \<^verbatim>\<open>INT\<close>, and the store would refuse a sum beyond \<open>2^31 - 1\<close>;
  scores are unbounded integers here, so sums of that size are outside the model.
\<close>

fun score_answers ::
  "int \<Rightarrow> int \<Rightarrow> timestamp option \<Rightarrow> nat \<Rightarrow> timestamp \<Rightarrow> answer list \<Rightarrow> world \<Rightarrow> error option \<times> world" where
  "score_answers correct duration ends_at room_id dbnow [] w = (None, w)"
| "score_answers correct duration ends_at room_id dbnow (a # as) w =
     (if a_option_index a \<noteq> correct then score_answers correct duration ends_at room_id dbnow as w
      else
        (case ends_at of
           None \<Rightarrow> (Some (TypeError ''unsupported operand type(s) for -''), w)
         | Some e \<Rightarrow>
             score_answers correct duration ends_at room_id dbnow as
               (update_players
                  (\<lambda>p. p_room_id p = room_id \<and> p_player_token p = a_player_token a)
                  (\<lambda>p. p\<lparr>p_score := p_score p + points_for e (a_answered_at a) duration,
                         p_last_seen_at := dbnow\<rparr>) w)))"

text \<open>
  \<^verbatim>\<open>finish_question_if_due\<close> in its two parts. \<open>finalize_guard\<close> is the reads and
  tests before the conditional update: it gives the room when all of them pass.
  \<open>finalize_locked\<close> is the conditional update
  \<^verbatim>\<open>UPDATE rooms SET state='RESULTS' ... WHERE id=%s AND state='QUESTION' RETURNING ...\<close>
  and all that follows it, run on the store as it is at that moment. The function itself
  is the second after the first on one and the same world; another executor acting between
  the two is the second part run on a later world.
\<close>

definition finalize_guard :: "pin \<Rightarrow> timestamp \<Rightarrow> world \<Rightarrow> room option" where
  "finalize_guard pin now w =
     (case get_room_by_pin w pin of
        None \<Rightarrow> None
      | Some room \<Rightarrow>
          if \<not> require_room_state room [QUESTION] then None
          else
            (case r_question_ends_at room of
               None \<Rightarrow> None
             | Some ends_at \<Rightarrow> if now \<le> ends_at then None else Some room))"

definition finalize_locked :: "nat \<Rightarrow> pin \<Rightarrow> timestamp \<Rightarrow> world \<Rightarrow> error option \<times> world" where
  "finalize_locked rid pin dbnow w =
     (case find (\<lambda>r. r_id r = rid \<and> r_state r = QUESTION) (rooms w) of
        None \<Rightarrow> (None, w)
      | Some locked \<Rightarrow>
          (let w1 = update_rooms (\<lambda>r. r_id r = rid \<and> r_state r = QUESTION)
                      (\<lambda>r. r\<lparr>r_state := RESULTS, r_last_activity_at := dbnow\<rparr>) w;
               room_id = r_id locked;
               q_index = r_current_question_index locked
           in if \<not> question_in_range q_index then (None, w1)
              else
                (let question = QUESTIONS ! nat q_index;
                     correct = q_correct_index question;
                     duration = q_duration question;
                     fetched = filter (\<lambda>a. a_room_id a = room_id \<and> a_question_index a = q_index)
                                 (answers w1)
                 in case score_answers correct duration (r_question_ends_at locked) room_id dbnow
                           fetched w1 of
                      (Some e, w2) \<Rightarrow> (Some e, w2)
                    | (None, w2) \<Rightarrow>
                        (None,
                         emit (ToRoom pin)
                           (QuestionResults correct (leaderboard_for_room_id w2 room_id)) w2))))"

definition finish_question_if_due ::
  "pin \<Rightarrow> timestamp \<Rightarrow> timestamp \<Rightarrow> world \<Rightarrow> error option \<times> world" where
  "finish_question_if_due pin now dbnow w =
     (case finalize_guard pin now w of
        None \<Rightarrow> (None, w)
      | Some room \<Rightarrow> finalize_locked (r_id room) pin dbnow w)"

text \<open>
  What the loop owes a player: the points of the correct answers among \<open>as\<close> that carry
  the player's token, when the player is of the room.
\<close>

definition credit :: "int \<Rightarrow> int \<Rightarrow> timestamp \<Rightarrow> nat \<Rightarrow> answer list \<Rightarrow> player \<Rightarrow> int" where
  "credit correct duration ends_at room_id as p =
     (if p_room_id p = room_id then
        sum_list
          (map (\<lambda>a. points_for ends_at (a_answered_at a) duration)
             (filter (\<lambda>a. a_option_index a = correct \<and> a_player_token a = p_player_token p) as))
      else 0)"

subsection \<open>Host actions\<close>

definition verify_host_and_get_room :: "sid \<Rightarrow> host_ref \<Rightarrow> world \<Rightarrow> room option \<times> world" where
  "verify_host_and_get_room s data w =
     (case present (hr_pin data) of
        None \<Rightarrow> (None, emit (ToSid s) (Error ''Missing pin/host_token'') w)
      | Some pin \<Rightarrow>
     (case present (hr_host_token data) of
        None \<Rightarrow> (None, emit (ToSid s) (Error ''Missing pin/host_token'') w)
      | Some host_token_s \<Rightarrow>
     (case get_room_by_pin w pin of
        None \<Rightarrow> (None, emit (ToSid s) (Error ''Room not found'') w)
      | Some room \<Rightarrow>
          if r_host_token room \<noteq> host_token_s then
            (None, emit (ToSid s) (Error ''Invalid host token'') w)
          else
            (case socket_index w s of
               None \<Rightarrow>
                 (None, emit (ToSid s) (Error ''Host socket not registered. Reconnect host.'') w)
             | Some meta \<Rightarrow>
                 if m_role meta \<noteq> Host \<or> m_pin meta \<noteq> pin then
                   (None, emit (ToSid s) (Error ''Host socket not registered. Reconnect host.'') w)
                 else (Some room, w)))))"

definition start_game :: "sid \<Rightarrow> host_ref \<Rightarrow> timestamp \<Rightarrow> world \<Rightarrow> world" where
  "start_game s data dbnow w =
     (case verify_host_and_get_room s data w of
        (None, w1) \<Rightarrow> w1
      | (Some room, w1) \<Rightarrow>
          if \<not> require_room_state room [LOBBY] then
            emit (ToSid s) (Error ''start_game allowed only in LOBBY'') w1
          else
            start_question (r_pin room) dbnow
              (update_rooms (\<lambda>r. r_id r = r_id room)
                 (\<lambda>r. r\<lparr>r_current_question_index := 0, r_last_activity_at := dbnow\<rparr>) w1))"

definition next_question :: "sid \<Rightarrow> host_ref \<Rightarrow> timestamp \<Rightarrow> world \<Rightarrow> world" where
  "next_question s data dbnow w =
     (case verify_host_and_get_room s data w of
        (None, w1) \<Rightarrow> w1
      | (Some room, w1) \<Rightarrow>
          if \<not> require_room_state room [RESULTS] then
            emit (ToSid s) (Error ''next_question allowed only in RESULTS'') w1
          else
            (let next_index = r_current_question_index room + 1
             in if int (length QUESTIONS) \<le> next_index then
                  (let w2 = update_rooms (\<lambda>r. r_id r = r_id room)
                              (\<lambda>r. r\<lparr>r_state := FINISHED, r_closed_at := Some dbnow,
                                     r_last_activity_at := dbnow\<rparr>) w1
                   in emit (ToRoom (r_pin room))
                        (GameFinished (leaderboard_for_room_id w2 (r_id room))) w2)
                else
                  start_question (r_pin room) dbnow
                    (update_rooms (\<lambda>r. r_id r = r_id room)
                       (\<lambda>r. r\<lparr>r_current_question_index := next_index,
                              r_last_activity_at := dbnow\<rparr>) w1)))"

subsection \<open>Answers\<close>

text \<open>
  The field \<^verbatim>\<open>option\<close> of the payload is absent, or a value that \<^verbatim>\<open>int()\<close> refuses,
  or a value that \<^verbatim>\<open>int()\<close> turns into the given integer.
\<close>

datatype option_field = Absent | NotAnInt | IntLike int

record answer_data =
  ad_pin :: "string option"
  ad_option :: option_field
  ad_player_token :: "string option"

text \<open>
  \<^verbatim>\<open>INSERT INTO answers ... ON CONFLICT (room_id, player_token, question_index) DO NOTHING\<close>.
\<close>

definition insert_answer :: "nat \<Rightarrow> token \<Rightarrow> int \<Rightarrow> int \<Rightarrow> timestamp \<Rightarrow> world \<Rightarrow> world" where
  "insert_answer room_id player_token q_index option_index dbnow w =
     (let w1 = w\<lparr>answer_seq := Suc (answer_seq w)\<rparr>
      in if \<exists>a \<in> set (answers w). a_room_id a = room_id \<and> a_player_token a = player_token
                                   \<and> a_question_index a = q_index
         then w1
         else w1\<lparr>answers := answers w @
                   [\<lparr>a_id = Suc (answer_seq w), a_room_id = room_id,
                     a_player_token = player_token, a_question_index = q_index,
                     a_option_index = option_index, a_answered_at = dbnow\<rparr>]\<rparr>)"

definition submit_answer ::
  "(string \<Rightarrow> token option) \<Rightarrow> sid \<Rightarrow> answer_data \<Rightarrow> real \<Rightarrow> timestamp \<Rightarrow> timestamp \<Rightarrow> world \<Rightarrow> world" where
  "submit_answer U s data t now dbnow w =
     (let lim = is_rate_limited (''answer:'' @ s) ANSWER_RATE_LIMIT ANSWER_RATE_WINDOW t
                  (rate_limits w);
          w1 = w\<lparr>rate_limits := snd lim\<rparr>
      in if fst lim then w1
         else
     (case ad_pin data of None \<Rightarrow> w1 | Some pin \<Rightarrow>
     (if ad_option data = Absent then w1 else
     (case ad_player_token data of None \<Rightarrow> w1 | Some player_token_s \<Rightarrow>
     (case get_room_by_pin w1 pin of None \<Rightarrow> w1 | Some room \<Rightarrow>
     (if \<not> require_room_state room [QUESTION] then w1 else
     (case socket_index w1 s of None \<Rightarrow> w1 | Some meta \<Rightarrow>
     (if m_role meta \<noteq> Player \<or> m_pin meta \<noteq> pin \<or> m_token meta \<noteq> player_token_s then w1 else
     (case U player_token_s of None \<Rightarrow> w1 | Some player_token \<Rightarrow>
     (case ad_option data of Absent \<Rightarrow> w1 | NotAnInt \<Rightarrow> w1 | IntLike option_index \<Rightarrow>
     (let q_index = r_current_question_index room
      in if \<not> question_in_range q_index then w1
         else if \<not> (0 \<le> option_index
                     \<and> option_index < int (length (q_options (QUESTIONS ! nat q_index)))) then w1
         else
           (case r_question_ends_at room of
              None \<Rightarrow> w1
            | Some ends_at \<Rightarrow>
                if ends_at < now then w1
                else touch_room_activity (r_id room) dbnow
                       (insert_answer (r_id room) player_token q_index option_index dbnow
                          w1)))))))))))))"

subsection \<open>Background tasks\<close>

text \<open>
  \<^verbatim>\<open>watchdog_task\<close> and \<^verbatim>\<open>cleanup_task\<close> loop for ever; a round is one pass of the
  loop after its sleep: the query, then the call for every row found. The calls of one
  round are given the same clock readings. An exception ends the task.
\<close>

fun finish_each :: "pin list \<Rightarrow> timestamp \<Rightarrow> timestamp \<Rightarrow> world \<Rightarrow> error option \<times> world" where
  "finish_each [] now dbnow w = (None, w)"
| "finish_each (pin # pins) now dbnow w =
     (case finish_question_if_due pin now dbnow w of
        (Some e, w1) \<Rightarrow> (Some e, w1)
      | (None, w1) \<Rightarrow> finish_each pins now dbnow w1)"

definition watchdog_round :: "timestamp \<Rightarrow> timestamp \<Rightarrow> world \<Rightarrow> error option \<times> world" where
  "watchdog_round now dbnow w =
     finish_each
       (map r_pin
          (filter (\<lambda>r. r_closed_at r = None \<and> r_state r = QUESTION
                       \<and> (case r_question_ends_at r of None \<Rightarrow> False | Some e \<Rightarrow> e < dbnow))
             (rooms w)))
       now dbnow w"

fun close_each :: "pin list \<Rightarrow> timestamp \<Rightarrow> world \<Rightarrow> world" where
  "close_each [] dbnow w = w"
| "close_each (pin # pins) dbnow w = close_each pins dbnow (close_room pin ''host_timeout'' dbnow w)"

definition cleanup_round :: "timestamp \<Rightarrow> world \<Rightarrow> world" where
  "cleanup_round dbnow w =
     close_each
       (map r_pin
          (filter (\<lambda>r. r_closed_at r = None \<and> \<not> r_host_connected r
                       \<and> (case r_host_disconnected_at r of
                            None \<Rightarrow> False
                          | Some d \<Rightarrow> d < dbnow - seconds ROOM_TTL_SECONDS))
             (rooms w)))
       dbnow w"

subsection \<open>Runs of the program\<close>

text \<open>
  Everything that can happen to a world: a transport event arrives at its handler, or a
  background task makes a round.
\<close>

datatype action =
    Connect sid
  | Disconnect sid timestamp
  | CreateRoom sid "nat \<Rightarrow> pin" token real timestamp
  | JoinRoom sid join_data token real timestamp
  | ReconnectPlayer sid player_ref timestamp
  | ReconnectHost sid host_ref timestamp
  | StartGame sid host_ref timestamp
  | NextQuestion sid host_ref timestamp
  | SubmitAnswer sid answer_data real timestamp timestamp
  | Watchdog timestamp timestamp
  | Cleanup timestamp

fun step :: "(string \<Rightarrow> token option) \<Rightarrow> action \<Rightarrow> world \<Rightarrow> world" where
  "step U (Connect s) w = on_connect s w"
| "step U (Disconnect s dbnow) w = on_disconnect U s dbnow w"
| "step U (CreateRoom s draw host_token t dbnow) w = snd (create_room s draw host_token t dbnow w)"
| "step U (JoinRoom s data player_token t dbnow) w = snd (join_game s data player_token t dbnow w)"
| "step U (ReconnectPlayer s data dbnow) w = reconnect_player U s data dbnow w"
| "step U (ReconnectHost s data dbnow) w = reconnect_host U s data dbnow w"
| "step U (StartGame s data dbnow) w = start_game s data dbnow w"
| "step U (NextQuestion s data dbnow) w = next_question s data dbnow w"
| "step U (SubmitAnswer s data t now dbnow) w = submit_answer U s data t now dbnow w"
| "step U (Watchdog now dbnow) w = snd (watchdog_round now dbnow w)"
| "step U (Cleanup dbnow) w = cleanup_round dbnow w"

fun run :: "(string \<Rightarrow> token option) \<Rightarrow> action list \<Rightarrow> world \<Rightarrow> world" where
  "run U [] w = w"
| "run U (a # as) w = run U as (step U a w)"

text \<open>The world at startup: empty tables (\<^verbatim>\<open>ensure_tables\<close>) and empty dictionaries.\<close>

definition initial :: world where
  "initial =
     \<lparr>rooms = [], players = [], answers = [], room_seq = 0, player_seq = 0, answer_seq = 0,
      socket_index = Map.empty, rate_limits = Map.empty, groups = {}, outbox = []\<rparr>"

subsection \<open>Finalize attempts among other actions\<close>







text \<open>Every room in \<open>QUESTION\<close> afterwards was in \<open>QUESTION\<close> before.\<close>

definition no_new_question :: "world \<Rightarrow> world \<Rightarrow> bool" where
  "no_new_question w w' =
     (\<forall>r' \<in> set (rooms w'). r_state r' = QUESTION \<longrightarrow>
        (\<exists>r \<in> set (rooms w). r_id r = r_id r' \<and> r_state r = QUESTION))"

fun is_question_results :: "dest \<times> event \<Rightarrow> bool" where
  "is_question_results (d, QuestionResults c lb) = True"
| "is_question_results (d, e) = False"

subsection \<open>A room in play\<close>

text \<open>
  A world used to try the statements below on: one open room showing the first question,
  with the deadline at second 15, its host and two players connected, Alice having
  answered correctly at second 0 and Bob wrongly at second 5.
\<close>

definition quiz_room :: room where
  "quiz_room =
     \<lparr>r_id = 1, r_pin = ''123456'', r_host_token = ''host-1'', r_state = QUESTION,
      r_current_question_index = 0, r_question_started_at = Some 0,
      r_question_ends_at = Some 15000000, r_host_connected = True,
      r_host_disconnected_at = None, r_created_at = 0, r_last_activity_at = 0,
      r_closed_at = None\<rparr>"

definition alice :: player where
  "alice = \<lparr>p_id = 1, p_room_id = 1, p_player_token = ''alice-1'', p_name = ''Alice'',
            p_score = 0, p_connected = True, p_created_at = 0, p_last_seen_at = 0\<rparr>"

definition bob :: player where
  "bob = \<lparr>p_id = 2, p_room_id = 1, p_player_token = ''bob-1'', p_name = ''Bob'',
          p_score = 0, p_connected = True, p_created_at = 0, p_last_seen_at = 0\<rparr>"

definition quiz_answers :: "answer list" where
  "quiz_answers =
     [\<lparr>a_id = 1, a_room_id = 1, a_player_token = ''alice-1'', a_question_index = 0,
       a_option_index = 1, a_answered_at = 0\<rparr>,
      \<lparr>a_id = 2, a_room_id = 1, a_player_token = ''bob-1'', a_question_index = 0,
       a_option_index = 0, a_answered_at = 5000000\<rparr>]"

definition quiz_sockets :: "sid \<rightharpoonup> meta" where
  "quiz_sockets =
     [''s-host'' \<mapsto> \<lparr>m_pin = ''123456'', m_role = Host, m_token = ''host-1''\<rparr>,
      ''s-alice'' \<mapsto> \<lparr>m_pin = ''123456'', m_role = Player, m_token = ''alice-1''\<rparr>,
      ''s-bob'' \<mapsto> \<lparr>m_pin = ''123456'', m_role = Player, m_token = ''bob-1''\<rparr>]"

definition quiz_world :: world where
  "quiz_world =
     \<lparr>rooms = [quiz_room], players = [alice, bob], answers = quiz_answers,
      room_seq = 1, player_seq = 2, answer_seq = 2,
      socket_index = quiz_sockets, rate_limits = Map.empty,
      groups = {(''s-host'', ''123456''), (''s-alice'', ''123456''), (''s-bob'', ''123456'')},
      outbox = []\<rparr>"

text \<open>The same room after its game has ended and it has been closed.\<close>

definition closed_world :: world where
  "closed_world =
     quiz_world\<lparr>rooms := [quiz_room\<lparr>r_state := FINISHED, r_closed_at := Some 20000000\<rparr>]\<rparr>"

text \<open>The room in play before anyone has answered, and Alice's answer to its question.\<close>

definition unanswered_world :: world where
  "unanswered_world = quiz_world\<lparr>answers := []\<rparr>"

definition alice_answer :: answer_data where
  "alice_answer =
     \<lparr>ad_pin = Some ''123456'', ad_option = IntLike 1, ad_player_token = Some ''alice-1''\<rparr>"

text \<open>The room showing the results of its first question, and what its host sends.\<close>

definition results_room :: room where
  "results_room = quiz_room\<lparr>r_state := RESULTS\<rparr>"

definition results_world :: world where
  "results_world = quiz_world\<lparr>rooms := [results_room]\<rparr>"

definition host_data :: host_ref where
  "host_data = \<lparr>hr_pin = Some ''123456'', hr_host_token = Some ''host-1''\<rparr>"

text \<open>What Alice sends to reconnect, and the fields of a room that no reconnection writes.\<close>

definition alice_ref :: player_ref where
  "alice_ref = \<lparr>pr_pin = Some ''123456'', pr_player_token = Some ''alice-1''\<rparr>"

definition room_core ::
  "room \<Rightarrow> nat \<times> pin \<times> token \<times> room_state \<times> int \<times> timestamp option \<times> timestamp option
          \<times> timestamp \<times> timestamp option" where
  "room_core r =
     (r_id r, r_pin r, r_host_token r, r_state r, r_current_question_index r,
      r_question_started_at r, r_question_ends_at r, r_created_at r, r_closed_at r)"

text \<open>
  The room in play with Bob, too, having answered correctly, 2.01 seconds before the
  deadline.
\<close>

definition rounding_world :: world where
  "rounding_world =
     quiz_world
       \<lparr>answers :=
          [\<lparr>a_id = 1, a_room_id = 1, a_player_token = ''alice-1'', a_question_index = 0,
            a_option_index = 1, a_answered_at = 0\<rparr>,
           \<lparr>a_id = 2, a_room_id = 1, a_player_token = ''bob-1'', a_question_index = 0,
            a_option_index = 1, a_answered_at = 12990000\<rparr>]\<rparr>"




text \<open>
  The room in play, its host gone since second 9: after ten more minutes the cleanup
  closes it.
\<close>

definition abandoned_world :: world where
  "abandoned_world =
     quiz_world\<lparr>rooms := [quiz_room\<lparr>r_host_connected := False,
                                     r_host_disconnected_at := Some 9000000\<rparr>]\<rparr>"

section \<open>Properties\<close>

subsection \<open>What the store operations leave alone\<close>

lemma emit_frame [simp]:
  "rooms (emit d e w) = rooms w"
  "players (emit d e w) = players w"
  "answers (emit d e w) = answers w"
  "room_seq (emit d e w) = room_seq w"
  "player_seq (emit d e w) = player_seq w"
  "answer_seq (emit d e w) = answer_seq w"
  "socket_index (emit d e w) = socket_index w"
  "rate_limits (emit d e w) = rate_limits w"
  "groups (emit d e w) = groups w"
  by (simp_all add: emit_def)

lemma join_room_frame [simp]:
  "rooms (join_room s pin w) = rooms w"
  "players (join_room s pin w) = players w"
  "answers (join_room s pin w) = answers w"
  "room_seq (join_room s pin w) = room_seq w"
  "player_seq (join_room s pin w) = player_seq w"
  "answer_seq (join_room s pin w) = answer_seq w"
  "socket_index (join_room s pin w) = socket_index w"
  "rate_limits (join_room s pin w) = rate_limits w"
  "outbox (join_room s pin w) = outbox w"
  by (simp_all add: join_room_def)

lemma leave_all_frame [simp]:
  "rooms (leave_all s w) = rooms w"
  "players (leave_all s w) = players w"
  "answers (leave_all s w) = answers w"
  "room_seq (leave_all s w) = room_seq w"
  "player_seq (leave_all s w) = player_seq w"
  "answer_seq (leave_all s w) = answer_seq w"
  "socket_index (leave_all s w) = socket_index w"
  "rate_limits (leave_all s w) = rate_limits w"
  "outbox (leave_all s w) = outbox w"
  by (simp_all add: leave_all_def)

lemma update_rooms_frame [simp]:
  "players (update_rooms P f w) = players w"
  "answers (update_rooms P f w) = answers w"
  "room_seq (update_rooms P f w) = room_seq w"
  "player_seq (update_rooms P f w) = player_seq w"
  "answer_seq (update_rooms P f w) = answer_seq w"
  "socket_index (update_rooms P f w) = socket_index w"
  "rate_limits (update_rooms P f w) = rate_limits w"
  "groups (update_rooms P f w) = groups w"
  "outbox (update_rooms P f w) = outbox w"
  by (simp_all add: update_rooms_def)

lemma update_players_frame [simp]:
  "rooms (update_players P g w) = rooms w"
  "answers (update_players P g w) = answers w"
  "room_seq (update_players P g w) = room_seq w"
  "player_seq (update_players P g w) = player_seq w"
  "answer_seq (update_players P g w) = answer_seq w"
  "socket_index (update_players P g w) = socket_index w"
  "rate_limits (update_players P g w) = rate_limits w"
  "groups (update_players P g w) = groups w"
  "outbox (update_players P g w) = outbox w"
  by (simp_all add: update_players_def)

lemma touch_room_activity_frame [simp]:
  "players (touch_room_activity rid t w) = players w"
  "answers (touch_room_activity rid t w) = answers w"
  "room_seq (touch_room_activity rid t w) = room_seq w"
  "player_seq (touch_room_activity rid t w) = player_seq w"
  "answer_seq (touch_room_activity rid t w) = answer_seq w"
  "socket_index (touch_room_activity rid t w) = socket_index w"
  "rate_limits (touch_room_activity rid t w) = rate_limits w"
  "groups (touch_room_activity rid t w) = groups w"
  "outbox (touch_room_activity rid t w) = outbox w"
  by (simp_all add: touch_room_activity_def)

lemma insert_answer_frame [simp]:
  "rooms (insert_answer rid tok q opt t w) = rooms w"
  "players (insert_answer rid tok q opt t w) = players w"
  "room_seq (insert_answer rid tok q opt t w) = room_seq w"
  "player_seq (insert_answer rid tok q opt t w) = player_seq w"
  "socket_index (insert_answer rid tok q opt t w) = socket_index w"
  "rate_limits (insert_answer rid tok q opt t w) = rate_limits w"
  "groups (insert_answer rid tok q opt t w) = groups w"
  "outbox (insert_answer rid tok q opt t w) = outbox w"
  by (simp_all add: insert_answer_def Let_def)

lemma insert_room_frame [simp]:
  "players (snd (insert_room pin tok t w)) = players w"
  "answers (snd (insert_room pin tok t w)) = answers w"
  "player_seq (snd (insert_room pin tok t w)) = player_seq w"
  "answer_seq (snd (insert_room pin tok t w)) = answer_seq w"
  "socket_index (snd (insert_room pin tok t w)) = socket_index w"
  "rate_limits (snd (insert_room pin tok t w)) = rate_limits w"
  "groups (snd (insert_room pin tok t w)) = groups w"
  "outbox (snd (insert_room pin tok t w)) = outbox w"
  by (simp_all add: insert_room_def Let_def)

lemma insert_player_frame [simp]:
  "rooms (snd (insert_player rid tok name t w)) = rooms w"
  "answers (snd (insert_player rid tok name t w)) = answers w"
  "room_seq (snd (insert_player rid tok name t w)) = room_seq w"
  "answer_seq (snd (insert_player rid tok name t w)) = answer_seq w"
  "socket_index (snd (insert_player rid tok name t w)) = socket_index w"
  "rate_limits (snd (insert_player rid tok name t w)) = rate_limits w"
  "groups (snd (insert_player rid tok name t w)) = groups w"
  "outbox (snd (insert_player rid tok name t w)) = outbox w"
  by (simp_all add: insert_player_def Let_def)

lemma outbox_emit [simp]: "outbox (emit d e w) = outbox w @ [(d, e)]"
  by (simp add: emit_def)

lemma rooms_update_rooms [simp]:
  "rooms (update_rooms P f w) = map (\<lambda>r. if P r then f r else r) (rooms w)"
  by (simp add: update_rooms_def)

lemma players_update_players [simp]:
  "players (update_players P g w) = map (\<lambda>p. if P p then g p else p) (players w)"
  by (simp add: update_players_def)

lemma rooms_touch_room_activity [simp]:
  "rooms (touch_room_activity rid t w)
     = map (\<lambda>r. if r_id r = rid then r\<lparr>r_last_activity_at := t\<rparr> else r) (rooms w)"
  by (simp add: touch_room_activity_def)

subsection \<open>Evaluating the float model\<close>

lemma bits_numeral [simp]:
  "bits 0 = 0" "bits (Suc 0) = Suc 0" "bits 1 = 1"
  "bits (numeral n) = Suc (bits (numeral n div 2))"
  by (simp_all add: bits.simps)

lemmas fl_eval = fl_def exponent_def pow2_def round_half_even_def Let_def

lemma bits_le: "n < 2 ^ k \<Longrightarrow> bits n \<le> k"
proof (induction k arbitrary: n)
  case 0
  then show ?case by (simp add: bits.simps)
next
  case (Suc k)
  show ?case
  proof (cases "n = 0")
    case True
    then show ?thesis by (simp add: bits.simps)
  next
    case False
    from Suc.prems have "n div 2 < 2 ^ k" by simp
    from Suc.IH [OF this] False show ?thesis by (subst bits.simps) simp
  qed
qed

lemma bits_pos: "0 < n \<Longrightarrow> 0 < bits n"
  by (subst bits.simps) simp

lemma round_half_even_of_int: "round_half_even (of_int k) = k"
  by (simp add: round_half_even_def)

lemma round_half_even_nonneg: "0 \<le> x \<Longrightarrow> 0 \<le> round_half_even x"
  by (simp add: round_half_even_def Let_def)

lemma pow2_pos: "0 < pow2 k"
  by (simp add: pow2_def)

lemma fl_nonneg: "0 \<le> x \<Longrightarrow> 0 \<le> fl x"
  by (simp add: fl_def Let_def round_half_even_nonneg pow2_pos less_imp_le)

lemma fl_nonpos: "x \<le> 0 \<Longrightarrow> fl x \<le> 0"
proof -
  assume "x \<le> 0"
  then have "sgn x \<le> 0" by (simp add: sgn_if)
  moreover have "0 \<le> real_of_int (round_half_even (\<bar>x\<bar> * pow2 (52 - exponent \<bar>x\<bar>))) * pow2 (exponent \<bar>x\<bar> - 52)"
    by (simp add: round_half_even_nonneg pow2_pos less_imp_le)
  ultimately show ?thesis
    by (simp add: fl_def Let_def mult.assoc mult_nonpos_nonneg)
qed

lemma fl_of_int:
  assumes "1 \<le> n" and "n < 2 ^ 53"
  shows "fl (of_int n) = of_int n"
proof -
  define b where "b = bits (nat n)"
  have "nat n < 2 ^ 53" using assms by (simp add: nat_less_iff)
  then have b53: "b \<le> 53" unfolding b_def by (rule bits_le)
  have b1: "0 < b" unfolding b_def using assms(1) by (intro bits_pos) simp
  have e: "exponent (of_int n) = int b - 1"
    using assms(1) by (simp add: exponent_def b_def)
  have up: "pow2 (53 - int b) = 2 ^ (53 - b)"
    using b53 by (simp add: pow2_def nat_diff_distrib')
  have down: "pow2 (int b - 53) = 1 / 2 ^ (53 - b)"
  proof (cases "b = 53")
    case True
    then show ?thesis by (simp add: pow2_def)
  next
    case False
    with b53 have "b < 53" by simp
    then have "nat (53 - int b) = 53 - b" by (simp add: nat_diff_distrib')
    with \<open>b < 53\<close> show ?thesis by (simp add: pow2_def)
  qed
  have "real_of_int n * 2 ^ (53 - b) = real_of_int (n * 2 ^ (53 - b))" by simp
  then have m: "round_half_even (real_of_int n * 2 ^ (53 - b)) = n * 2 ^ (53 - b)"
    by (simp only: round_half_even_of_int)
  have pos: "\<bar>real_of_int n\<bar> = real_of_int n" "sgn (real_of_int n) = 1" "real_of_int n \<noteq> 0"
    using assms(1) by simp_all
  show ?thesis
    by (simp add: fl_def Let_def pos e up down m)
qed

lemma fl_0: "fl 0 = 0"
  by (simp add: fl_def)

lemma py_int_nonneg: "0 \<le> x \<Longrightarrow> py_int x = \<lfloor>x\<rfloor>"
  by (simp add: py_int_def)

lemma bonus_nonneg:
  assumes "0 \<le> x"
  shows "0 \<le> fl (fl (x / real_of_int (max 1 d)) * 500)"
proof -
  have "0 \<le> x / real_of_int (max 1 d)" using assms by simp
  then have "0 \<le> fl (x / real_of_int (max 1 d)) * 500" by (simp add: fl_nonneg)
  then show ?thesis by (rule fl_nonneg)
qed

lemma points_for_formula:
  "points_for e a d =
     1000 + \<lfloor>fl (fl (max 0 (total_seconds (e - a)) / real_of_int (max 1 d)) * 500)\<rfloor>"
proof -
  let ?tl = "max 0 (total_seconds (e - a))"
  have tl: "(if total_seconds (e - a) < 0 then 0 else total_seconds (e - a)) = ?tl"
    by (simp add: max_def)
  have nn: "0 \<le> fl (fl (?tl / real_of_int (max 1 d)) * 500)"
    by (rule bonus_nonneg) simp
  then have "0 \<le> \<lfloor>fl (fl (?tl / real_of_int (max 1 d)) * 500)\<rfloor>" by simp
  with nn show ?thesis
    unfolding points_for_def Let_def tl by (simp add: py_int_nonneg)
qed

lemma points_for_late: "e \<le> a \<Longrightarrow> points_for e a d = 1000"
proof -
  assume "e \<le> a"
  then have "real_of_int (e - a) / 1000000 \<le> 0" by simp
  then have "total_seconds (e - a) \<le> 0" unfolding total_seconds_def by (rule fl_nonpos)
  then have "max 0 (total_seconds (e - a)) = 0" by simp
  then show ?thesis by (simp add: points_for_formula fl_0)
qed

lemma points_for_full:
  assumes "1 \<le> d" and "d < 2 ^ 53"
  shows "points_for (a + seconds d) a d = 1500"
proof -
  have "total_seconds (seconds d) = fl (real_of_int d)"
    by (simp add: total_seconds_def seconds_def)
  also have "\<dots> = real_of_int d" using assms by (rule fl_of_int)
  finally have ts: "total_seconds (a + seconds d - a) = real_of_int d" by simp
  have one: "fl 1 = 1" using fl_of_int [of 1] by simp
  have fh: "fl 500 = 500" using fl_of_int [of 500] by simp
  have "max 0 (real_of_int d) / real_of_int (max 1 d) = 1" using assms(1) by simp
  then show ?thesis
    unfolding points_for_formula ts by (simp add: one fh)
qed

subsection \<open>How far the floats are from exact arithmetic\<close>

text \<open>
  Rounding moves a value by at most the fraction \<open>2^-53\<close> of it. The bonus goes through
  three roundings, so it lies within the fraction \<open>2^-51\<close> of the exact value
  \<open>time_left / (2000 * duration)\<close> (in microseconds), which is less than the distance
  from a fraction with that denominator to the next whole number while the time left
  is below \<open>2^51\<close> microseconds, some 71 years.
\<close>

lemma bits_bounds: "0 < n \<Longrightarrow> 2 ^ (bits n - 1) \<le> n \<and> n < 2 ^ bits n"
proof (induction n rule: bits.induct)
  case (1 n)
  show ?case
  proof (cases "n div 2 = 0")
    case True
    with 1(2) have "n = 1" by (simp add: div_eq_0_iff) 
    then show ?thesis by simp
  next
    case False
    then have pos: "0 < n div 2" by simp
    from 1(2) have n0: "n \<noteq> 0" by simp
    from 1(1) [OF n0 pos] have lo: "2 ^ (bits (n div 2) - 1) \<le> n div 2"
      and hi: "n div 2 < 2 ^ bits (n div 2)" by simp_all
    have b: "bits n = Suc (bits (n div 2))" using n0 by (subst bits.simps) simp
    have bp: "0 < bits (n div 2)" using pos by (rule bits_pos)
    then have "2 ^ (bits n - 1) = 2 * 2 ^ (bits (n div 2) - 1)"
      unfolding b by (cases "bits (n div 2)") simp_all
    also have "\<dots> \<le> 2 * (n div 2)" using lo by simp
    also have "\<dots> \<le> n" by simp
    finally have l: "2 ^ (bits n - 1) \<le> n" .
    from hi have "n div 2 + 1 \<le> 2 ^ bits (n div 2)" by simp
    then have "2 * (n div 2) + 2 \<le> 2 * 2 ^ bits (n div 2)" by simp
    moreover have "n < 2 * (n div 2) + 2" by presburger
    ultimately have "n < 2 ^ bits n" unfolding b by simp
    with l show ?thesis by simp
  qed
qed

lemma pow2_powi: "pow2 k = 2 powi k"
  by (simp add: pow2_def power_int_def inverse_eq_divide power_one_over)

lemma pow2_nat: "pow2 (int n) = 2 ^ n"
  by (simp add: pow2_def)

lemma pow2_neg: "pow2 (- int n) = 1 / 2 ^ n"
  by (cases "n = 0") (simp_all add: pow2_def)

lemma exponent_ge1: "1 \<le> a \<Longrightarrow> exponent a = int (bits (nat \<lfloor>a\<rfloor>)) - 1"
  by (simp add: exponent_def)

lemma exponent_lt1: "\<not> 1 \<le> a \<Longrightarrow> exponent a = - int (bits (nat (\<lceil>1 / a\<rceil> - 1)))"
  by (simp add: exponent_def)

lemma exponent_le:
  assumes "0 < a"
  shows "pow2 (exponent a) \<le> a"
proof (cases "1 \<le> a")
  case True
  define b where "b = bits (nat \<lfloor>a\<rfloor>)"
  from True have f: "1 \<le> \<lfloor>a\<rfloor>" by simp
  then have p: "0 < nat \<lfloor>a\<rfloor>" by simp
  from bits_bounds [OF p] have "2 ^ (b - 1) \<le> nat \<lfloor>a\<rfloor>" unfolding b_def by simp
  then have "real (2 ^ (b - 1)) \<le> real (nat \<lfloor>a\<rfloor>)"
    by (simp only: of_nat_le_iff)
  also have "real (nat \<lfloor>a\<rfloor>) = of_int \<lfloor>a\<rfloor>" using f by simp
  also have "\<dots> \<le> a" by (rule of_int_floor_le)
  finally have le: "2 ^ (b - 1) \<le> a" by simp
  have bp: "0 < b" unfolding b_def using p by (rule bits_pos)
  then have "int b - 1 = int (b - 1)" by simp
  then have "pow2 (exponent a) = 2 ^ (b - 1)"
    unfolding exponent_ge1 [OF True] b_def [symmetric] by (simp only: pow2_nat)
  with le show ?thesis by simp
next
  case False
  then have a1: "a < 1" by simp
  define c where "c = \<lceil>1 / a\<rceil>"
  define k where "k = nat (c - 1)"
  have "1 < 1 / a" using assms a1 by simp
  then have "1 < c" unfolding c_def by (simp only: less_ceiling_iff of_int_1)
  then have c2: "2 \<le> c" by simp
  then have kp: "0 < k" by (simp add: k_def)
  from bits_bounds [OF kp] have "k < 2 ^ bits k" by simp
  then have "k + 1 \<le> 2 ^ bits k" by simp
  then have "real (k + 1) \<le> real (2 ^ bits k)" by (simp only: of_nat_le_iff)
  then have r: "real (k + 1) \<le> 2 ^ bits k" by simp
  have "int (k + 1) = c" using c2 by (simp add: k_def)
  then have "real (k + 1) = of_int c" by (metis of_int_of_nat_eq)
  moreover have "1 / a \<le> of_int c" unfolding c_def by (rule le_of_int_ceiling)
  ultimately have "1 / a \<le> 2 ^ bits k" using r by linarith
  then have "1 \<le> 2 ^ bits k * a" using assms by (simp only: pos_divide_le_eq)
  then have "1 / 2 ^ bits k \<le> a" by (simp add: pos_divide_le_eq mult.commute)
  moreover have "pow2 (exponent a) = 1 / 2 ^ bits k"
    unfolding exponent_lt1 [OF False] c_def [symmetric] k_def [symmetric] by (rule pow2_neg)
  ultimately show ?thesis by simp
qed

lemma round_half_even_err: "\<bar>real_of_int (round_half_even x) - x\<bar> \<le> 1 / 2"
  unfolding round_half_even_def Let_def by (auto; linarith)

lemma fl_err: "\<bar>fl x - x\<bar> \<le> \<bar>x\<bar> / 2 ^ 53"
proof (cases "x = 0")
  case True
  then show ?thesis by (simp add: fl_def)
next
  case False
  define a where "a = \<bar>x\<bar>"
  define e where "e = exponent a"
  define m where "m = round_half_even (a * pow2 (52 - e))"
  have ap: "0 < a" using False by (simp add: a_def)
  have flx: "fl x = sgn x * (of_int m * pow2 (e - 52))"
    using False by (simp add: fl_def Let_def a_def e_def m_def mult.assoc)
  have x: "x = sgn x * a" by (simp add: a_def sgn_if)
  have "fl x - x = sgn x * (of_int m * pow2 (e - 52) - a)"
    by (subst (2) x, subst flx) (simp add: algebra_simps)
  then have "\<bar>fl x - x\<bar> = \<bar>of_int m * pow2 (e - 52) - a\<bar>"
    using False by (simp add: abs_mult abs_sgn_eq)
  also have "of_int m * pow2 (e - 52) - a = (of_int m - a * pow2 (52 - e)) * pow2 (e - 52)"
  proof -
    have "pow2 (52 - e) * pow2 (e - 52) = 2 powi (52 - e + (e - 52))"
      unfolding pow2_powi by (rule power_int_add [symmetric]) simp
    then have "pow2 (52 - e) * pow2 (e - 52) = 1" by simp
    then have "a * pow2 (52 - e) * pow2 (e - 52) = a" by (simp add: mult.assoc)
    then show ?thesis by (simp add: algebra_simps)
  qed
  also have "\<bar>\<dots>\<bar> = \<bar>of_int m - a * pow2 (52 - e)\<bar> * pow2 (e - 52)"
    by (simp add: abs_mult pow2_pos less_imp_le)
  also have "\<dots> \<le> 1 / 2 * pow2 (e - 52)"
    unfolding m_def by (intro mult_right_mono round_half_even_err) (simp add: pow2_pos less_imp_le)
  also have "\<dots> = pow2 e / 2 ^ 53"
  proof -
    have "pow2 (e - 52) = pow2 e / pow2 52"
      by (simp add: pow2_powi power_int_diff)
    also have "pow2 52 = 2 ^ 52" by (simp add: pow2_def)
    finally show ?thesis by simp
  qed
  also have "\<dots> \<le> a / 2 ^ 53"
    using exponent_le [OF ap] by (simp add: e_def divide_right_mono)
  finally show ?thesis by (simp add: a_def)
qed


lemma fl_scale:
  assumes y: "0 \<le> y"
    and lo: "y * (1 - 1 / 2 ^ 53) ^ k \<le> x"
    and hi: "x \<le> y * (1 + 1 / 2 ^ 53) ^ k"
  shows "y * (1 - 1 / 2 ^ 53) ^ Suc k \<le> fl x \<and> fl x \<le> y * (1 + 1 / 2 ^ 53) ^ Suc k"
proof -
  let ?u = "1 / 2 ^ 53 :: real"
  have "0 \<le> y * (1 - ?u) ^ k" using y by simp
  with lo have x0: "0 \<le> x" by linarith
  from fl_err [of x] x0 have "\<bar>fl x - x\<bar> \<le> x * ?u" by simp
  then have a: "x - x * ?u \<le> fl x" and b: "fl x \<le> x + x * ?u"
    by linarith+
  have "y * (1 - ?u) ^ Suc k = (y * (1 - ?u) ^ k) * (1 - ?u)" by simp
  also have "\<dots> \<le> x * (1 - ?u)" using lo by (intro mult_right_mono) simp_all
  also have "\<dots> = x - x * ?u" by (simp add: algebra_simps)
  finally have l: "y * (1 - ?u) ^ Suc k \<le> fl x" using a by linarith
  have "x + x * ?u = x * (1 + ?u)" by (simp add: algebra_simps)
  also have "\<dots> \<le> (y * (1 + ?u) ^ k) * (1 + ?u)" using hi by (intro mult_right_mono) simp_all
  also have "\<dots> = y * (1 + ?u) ^ Suc k" by simp
  finally have "fl x \<le> y * (1 + ?u) ^ Suc k" using b by linarith
  with l show ?thesis by simp
qed

lemma bonus_close:
  assumes n: "0 \<le> n" and d: "1 \<le> d"
  shows "real_of_int n / real_of_int (2000 * d) * (1 - 1 / 2 ^ 51)
           \<le> fl (fl (total_seconds n / real_of_int d) * 500) \<and>
         fl (fl (total_seconds n / real_of_int d) * 500)
           \<le> real_of_int n / real_of_int (2000 * d) * (1 + 1 / 2 ^ 51)"
proof -
  let ?u = "1 / 2 ^ 53 :: real"
  let ?x = "real_of_int n / 1000000"
  let ?y = "?x / real_of_int d"
  let ?z = "?y * 500"
  have dp: "0 < real_of_int d" using d by simp
  have x0: "0 \<le> ?x" using n by simp
  have y0: "0 \<le> ?y" using n d by simp
  have z0: "0 \<le> ?z" using y0 by simp
  have t: "?x * (1 - ?u) ^ Suc 0 \<le> total_seconds n \<and> total_seconds n \<le> ?x * (1 + ?u) ^ Suc 0"
    unfolding total_seconds_def by (rule fl_scale [OF x0]) simp_all
  have q1: "?y * (1 - ?u) ^ Suc 0 \<le> total_seconds n / real_of_int d"
  proof -
    have "?x * (1 - ?u) ^ Suc 0 / real_of_int d \<le> total_seconds n / real_of_int d"
      using t dp by (intro divide_right_mono) simp_all
    then show ?thesis by (simp add: field_simps)
  qed
  have q2: "total_seconds n / real_of_int d \<le> ?y * (1 + ?u) ^ Suc 0"
  proof -
    have "total_seconds n / real_of_int d \<le> ?x * (1 + ?u) ^ Suc 0 / real_of_int d"
      using t dp by (intro divide_right_mono) simp_all
    then show ?thesis by (simp add: field_simps)
  qed
  have q: "?y * (1 - ?u) ^ Suc (Suc 0) \<le> fl (total_seconds n / real_of_int d) \<and>
           fl (total_seconds n / real_of_int d) \<le> ?y * (1 + ?u) ^ Suc (Suc 0)"
    by (rule fl_scale [OF y0 q1 q2])
  have p1: "?z * (1 - ?u) ^ Suc (Suc 0) \<le> fl (total_seconds n / real_of_int d) * 500"
  proof -
    have "?y * (1 - ?u) ^ Suc (Suc 0) * 500 \<le> fl (total_seconds n / real_of_int d) * 500"
      using q by (intro mult_right_mono) simp_all
    then show ?thesis by (simp add: mult.commute mult.left_commute)
  qed
  have p2: "fl (total_seconds n / real_of_int d) * 500 \<le> ?z * (1 + ?u) ^ Suc (Suc 0)"
  proof -
    have "fl (total_seconds n / real_of_int d) * 500 \<le> ?y * (1 + ?u) ^ Suc (Suc 0) * 500"
      using q by (intro mult_right_mono) simp_all
    then show ?thesis by (simp add: mult.commute mult.left_commute)
  qed
  have b: "?z * (1 - ?u) ^ Suc (Suc (Suc 0))
             \<le> fl (fl (total_seconds n / real_of_int d) * 500) \<and>
           fl (fl (total_seconds n / real_of_int d) * 500)
             \<le> ?z * (1 + ?u) ^ Suc (Suc (Suc 0))"
    by (rule fl_scale [OF z0 p1 p2])
  have z: "?z = real_of_int n / real_of_int (2000 * d)" using dp by (simp add: field_simps)
  have c1: "(1 - 1 / 2 ^ 51 :: real) \<le> (1 - ?u) ^ Suc (Suc (Suc 0))" by (simp add: power3_eq_cube)
  have c2: "(1 + ?u) ^ Suc (Suc (Suc 0)) \<le> (1 + 1 / 2 ^ 51 :: real)" by (simp add: power3_eq_cube)
  have "?z * (1 - 1 / 2 ^ 51) \<le> ?z * (1 - ?u) ^ Suc (Suc (Suc 0))"
    using z0 c1 by (rule mult_left_mono [rotated])
  moreover have "?z * (1 + ?u) ^ Suc (Suc (Suc 0)) \<le> ?z * (1 + 1 / 2 ^ 51)"
    using z0 c2 by (rule mult_left_mono [rotated])
  ultimately show ?thesis unfolding z [symmetric] using b by linarith
qed


lemma spec_points_div:
  assumes "0 \<le> n" and "1 \<le> d"
  shows "spec_points (a + n) a d = 1000 + n div (2000 * d)"
proof -
  have dp: "0 < real_of_int d" using assms(2) by simp
  have "max 0 (real_of_int n / 1000000) / real_of_int (max 1 d) * 500
          = real_of_int n / real_of_int (2000 * d)"
    using assms dp by (simp add: max_def field_simps)
  moreover have "\<lfloor>real_of_int n / real_of_int (2000 * d)\<rfloor> = n div (2000 * d)"
    by (rule floor_divide_of_int_eq)
  moreover have "0 \<le> n div (2000 * d)" using assms by (simp add: pos_imp_zdiv_nonneg_iff)
  ultimately show ?thesis by (simp add: spec_points_def)
qed

lemma floor_near:
  assumes N: "0 < N" and n: "0 \<le> n"
    and lo: "(real_of_int n - 1) / real_of_int N < b"
    and hi: "b < (real_of_int n + 1) / real_of_int N"
  shows "\<lfloor>b\<rfloor> = n div N \<or> (N dvd n \<and> \<lfloor>b\<rfloor> = n div N - 1)"
proof -
  define k where "k = n div N"
  define r where "r = n mod N"
  have nk: "n = k * N + r" by (simp add: k_def r_def)
  have r0: "0 \<le> r" and rN: "r < N" using N by (simp_all add: r_def)
  have Np: "0 < real_of_int N" using N by simp
  have rn: "real_of_int n = real_of_int k * real_of_int N + real_of_int r"
    by (subst nk) simp
  show ?thesis
  proof (cases "r = 0")
    case True
    then have dv: "N dvd n" by (simp add: r_def dvd_eq_mod_eq_0)
    have "real_of_int k - 1 \<le> (real_of_int n - 1) / real_of_int N"
    proof -
      have "(real_of_int k - 1) * real_of_int N \<le> real_of_int n - 1"
        using True N by (simp add: rn algebra_simps)
      then show ?thesis using Np by (simp add: pos_le_divide_eq)
    qed
    with lo have l: "real_of_int (k - 1) < b" by simp
    have "(real_of_int n + 1) / real_of_int N \<le> real_of_int k + 1"
    proof -
      have "real_of_int n + 1 \<le> (real_of_int k + 1) * real_of_int N"
        using True N by (simp add: rn algebra_simps)
      then show ?thesis using Np by (simp add: pos_divide_le_eq)
    qed
    with hi have h: "b < real_of_int (k + 1)" by simp
    from l have "k - 1 \<le> \<lfloor>b\<rfloor>" by (simp only: le_floor_iff less_imp_le)
    moreover from h have "\<lfloor>b\<rfloor> < k + 1" by (simp only: floor_less_iff)
    ultimately have "\<lfloor>b\<rfloor> = k \<or> \<lfloor>b\<rfloor> = k - 1" by linarith
    with dv show ?thesis by (simp add: k_def)
  next
    case False
    with r0 have r1: "1 \<le> r" by simp
    have "real_of_int k \<le> (real_of_int n - 1) / real_of_int N"
    proof -
      have "real_of_int 1 \<le> real_of_int r" using r1 by (simp only: of_int_le_iff)
      then have "real_of_int k * real_of_int N \<le> real_of_int n - 1"
        by (simp add: rn)
      then show ?thesis using Np by (simp add: pos_le_divide_eq)
    qed
    with lo have l: "real_of_int k < b" by simp
    have "(real_of_int n + 1) / real_of_int N \<le> real_of_int k + 1"
    proof -
      have "r + 1 \<le> N" using rN by simp
      then have "real_of_int (r + 1) \<le> real_of_int N" by (simp only: of_int_le_iff)
      then have "real_of_int n + 1 \<le> (real_of_int k + 1) * real_of_int N"
        by (simp add: rn algebra_simps)
      then show ?thesis using Np by (simp add: pos_divide_le_eq)
    qed
    with hi have h: "b < real_of_int (k + 1)" by simp
    from l have "k \<le> \<lfloor>b\<rfloor>" by (simp only: le_floor_iff less_imp_le)
    moreover from h have "\<lfloor>b\<rfloor> < k + 1" by (simp only: floor_less_iff)
    ultimately have "\<lfloor>b\<rfloor> = k" by linarith
    then show ?thesis by (simp add: k_def)
  qed
qed

lemma points_for_spec:
  assumes d: "1 \<le> d" and lt: "e - a < 2 ^ 51"
  shows "points_for e a d = spec_points e a d \<or>
         ((2000 * d) dvd (e - a) \<and> points_for e a d = spec_points e a d - 1)"
proof (cases "e \<le> a")
  case True
  then have "max 0 (real_of_int (e - a) / 1000000) = 0" by simp
  then have "spec_points e a d = 1000" by (simp add: spec_points_def)
  with True show ?thesis by (simp add: points_for_late)
next
  case False
  define n where "n = e - a"
  have n1: "1 \<le> n" and n0: "0 \<le> n" and nlt: "n < 2 ^ 51" using False lt by (simp_all add: n_def)
  have e: "e = a + n" by (simp add: n_def)
  let ?N = "2000 * d"
  let ?b = "fl (fl (total_seconds n / real_of_int d) * 500)"
  have Np: "0 < ?N" using d by simp
  have rNp: "0 < real_of_int ?N" using Np by (simp only: of_int_0_less_iff)
  have ts: "0 \<le> total_seconds n"
    unfolding total_seconds_def using n0 by (intro fl_nonneg) simp
  have pf: "points_for e a d = 1000 + \<lfloor>?b\<rfloor>"
    unfolding points_for_formula using ts d by (simp add: n_def max_def)
  have sp: "spec_points e a d = 1000 + n div ?N"
    unfolding e by (rule spec_points_div [OF n0 d])
  have small: "real_of_int n / real_of_int ?N * (1 / 2 ^ 51) < 1 / real_of_int ?N"
  proof -
    have "real_of_int n < real_of_int (2 ^ 51)" using nlt by (simp only: of_int_less_iff)
    then have "real_of_int n * (1 / 2 ^ 51) < 1" by simp
    then have "real_of_int n * (1 / 2 ^ 51) / real_of_int ?N < 1 / real_of_int ?N"
      using rNp by (simp only: divide_strict_right_mono)
    then show ?thesis by (simp add: field_simps)
  qed
  from bonus_close [OF n0 d]
  have lo': "real_of_int n / real_of_int ?N * (1 - 1 / 2 ^ 51) \<le> ?b"
    and hi': "?b \<le> real_of_int n / real_of_int ?N * (1 + 1 / 2 ^ 51)" by simp_all
  have lo: "(real_of_int n - 1) / real_of_int ?N < ?b"
  proof -
    have "(real_of_int n - 1) / real_of_int ?N
            = real_of_int n / real_of_int ?N - 1 / real_of_int ?N"
      by (simp add: diff_divide_distrib)
    also have "\<dots> < real_of_int n / real_of_int ?N
                     - real_of_int n / real_of_int ?N * (1 / 2 ^ 51)"
      using small by linarith
    also have "\<dots> = real_of_int n / real_of_int ?N * (1 - 1 / 2 ^ 51)"
      by (simp only: right_diff_distrib mult_1_right)
    finally show ?thesis using lo' by linarith
  qed
  have hi: "?b < (real_of_int n + 1) / real_of_int ?N"
  proof -
    have "real_of_int n / real_of_int ?N * (1 + 1 / 2 ^ 51)
            = real_of_int n / real_of_int ?N + real_of_int n / real_of_int ?N * (1 / 2 ^ 51)"
      by (simp only: distrib_left mult_1_right)
    also have "\<dots> < real_of_int n / real_of_int ?N + 1 / real_of_int ?N"
      using small by linarith
    also have "\<dots> = (real_of_int n + 1) / real_of_int ?N"
      by (simp add: add_divide_distrib)
    finally show ?thesis using hi' by linarith
  qed
  from floor_near [OF Np n0 lo hi]
  show ?thesis unfolding pf sp n_def [symmetric] by auto
qed

subsection \<open>Scoring\<close>

lemma credit_same_key:
  "p_room_id p' = p_room_id p \<Longrightarrow> p_player_token p' = p_player_token p \<Longrightarrow>
   credit c d e rid as p' = credit c d e rid as p"
  by (simp add: credit_def)

lemma credit_Nil: "credit c d e rid [] p = 0"
  by (simp add: credit_def)

lemma credit_Cons:
  "credit c d e rid (a # as) p =
     (if p_room_id p = rid \<and> a_option_index a = c \<and> a_player_token a = p_player_token p
      then points_for e (a_answered_at a) d else 0) + credit c d e rid as p"
  by (simp add: credit_def)

lemma score_answers_fst: "fst (score_answers c d (Some e) rid t as w) = None"
  by (induction as arbitrary: w) simp_all

lemma score_answers_frame:
  "rooms (snd (score_answers c d ends rid t as w)) = rooms w \<and>
   answers (snd (score_answers c d ends rid t as w)) = answers w \<and>
   outbox (snd (score_answers c d ends rid t as w)) = outbox w \<and>
   socket_index (snd (score_answers c d ends rid t as w)) = socket_index w \<and>
   rate_limits (snd (score_answers c d ends rid t as w)) = rate_limits w \<and>
   groups (snd (score_answers c d ends rid t as w)) = groups w \<and>
   room_seq (snd (score_answers c d ends rid t as w)) = room_seq w \<and>
   player_seq (snd (score_answers c d ends rid t as w)) = player_seq w \<and>
   answer_seq (snd (score_answers c d ends rid t as w)) = answer_seq w"
proof (cases ends)
  case None
  show ?thesis unfolding None by (induction as arbitrary: w) simp_all
next
  case (Some e)
  show ?thesis unfolding Some by (induction as arbitrary: w) simp_all
qed

lemma score_answers_scores:
  "map p_score (players (snd (score_answers c d (Some e) rid t as w))) =
     map (\<lambda>p. p_score p + credit c d e rid as p) (players w) \<and>
   map p_room_id (players (snd (score_answers c d (Some e) rid t as w))) = map p_room_id (players w) \<and>
   map p_player_token (players (snd (score_answers c d (Some e) rid t as w))) = map p_player_token (players w)"
proof (induction as arbitrary: w)
  case Nil
  show ?case by (simp add: credit_Nil)
next
  case (Cons a as)
  show ?case
  proof (cases "a_option_index a = c")
    case False
    with Cons.IH [of w] show ?thesis by (simp add: credit_Cons)
  next
    case True
    define g :: "player \<Rightarrow> player" where "g = (\<lambda>p. if p_room_id p = rid \<and> p_player_token p = a_player_token a
                            then p\<lparr>p_score := p_score p + points_for e (a_answered_at a) d,
                                   p_last_seen_at := t\<rparr>
                            else p)"
    let ?w1 = "w\<lparr>players := map g (players w)\<rparr>"
    have step: "score_answers c d (Some e) rid t (a # as) w = score_answers c d (Some e) rid t as ?w1"
      using True by (simp add: update_players_def g_def)
    have key: "p_room_id (g p) = p_room_id p" "p_player_token (g p) = p_player_token p" for p
      by (simp_all add: g_def)
    have pt: "p_score (g p) + credit c d e rid as (g p) = p_score p + credit c d e rid (a # as) p" for p
    proof -
      have "credit c d e rid as (g p) = credit c d e rid as p"
        by (rule credit_same_key) (simp_all add: key)
      then show ?thesis using True by (simp add: credit_Cons) (simp add: g_def)
    qed
    have "map (\<lambda>p. p_score p + credit c d e rid as p) (players ?w1)
            = map (\<lambda>p. p_score (g p) + credit c d e rid as (g p)) (players w)"
      by (simp add: comp_def)
    then have a1: "map (\<lambda>p. p_score p + credit c d e rid as p) (players ?w1)
            = map (\<lambda>p. p_score p + credit c d e rid (a # as) p) (players w)"
      by (simp only: pt)
    have a2: "map p_room_id (players ?w1) = map p_room_id (players w)"
      "map p_player_token (players ?w1) = map p_player_token (players w)"
      by (simp_all add: comp_def key)
    show ?thesis using Cons.IH [of ?w1] unfolding step by (simp only: a1 a2) 
  qed
qed

lemma find_by_id:
  "distinct (map r_id rs) \<Longrightarrow> find P rs = Some room \<Longrightarrow> Q room \<Longrightarrow>
   find (\<lambda>r. r_id r = r_id room \<and> Q r) rs = Some room"
proof (induction rs)
  case Nil
  then show ?case by simp
next
  case (Cons x rs)
  show ?case
  proof (cases "P x")
    case True
    with Cons.prems show ?thesis by simp
  next
    case False
    with Cons.prems have f: "find P rs = Some room" by simp
    then have "room \<in> set rs" by (auto simp: find_Some_iff)
    with Cons.prems(1) have "r_id x \<noteq> r_id room" by auto
    with Cons.IH [OF _ f Cons.prems(3)] Cons.prems(1) show ?thesis by simp
  qed
qed

lemma finalize_guard_SomeD:
  "finalize_guard pin now w = Some room \<Longrightarrow>
   get_room_by_pin w pin = Some room \<and> r_state room = QUESTION \<and>
   (\<exists>e. r_question_ends_at room = Some e \<and> e < now)"
  by (auto simp: finalize_guard_def require_room_state_def split: option.splits if_splits)

lemma finish_due_locked:
  assumes "distinct (map r_id (rooms w))" and "finalize_guard pin now w = Some room"
  shows "finish_question_if_due pin now dbnow w = finalize_locked (r_id room) pin dbnow w"
    and "find (\<lambda>r. r_id r = r_id room \<and> r_state r = QUESTION) (rooms w) = Some room"
proof -
  show "finish_question_if_due pin now dbnow w = finalize_locked (r_id room) pin dbnow w"
    using assms(2) by (simp add: finish_question_if_due_def)
  from finalize_guard_SomeD [OF assms(2)]
  have "find (\<lambda>r. r_pin r = pin \<and> r_closed_at r = None) (rooms w) = Some room"
    and "r_state room = QUESTION"
    by (simp_all add: get_room_by_pin_def)
  then show "find (\<lambda>r. r_id r = r_id room \<and> r_state r = QUESTION) (rooms w) = Some room"
    using find_by_id [OF assms(1), of _ room "\<lambda>r. r_state r = QUESTION"] by simp
qed

lemma finalize_locked_scores:
  assumes "find (\<lambda>r. r_id r = rid \<and> r_state r = QUESTION) (rooms w) = Some locked"
    and "r_question_ends_at locked = Some e"
    and "question_in_range (r_current_question_index locked)"
  shows "fst (finalize_locked rid pin dbnow w) = None"
    and "map p_score (players (snd (finalize_locked rid pin dbnow w))) =
         map (\<lambda>p. p_score p
                + credit (q_correct_index (QUESTIONS ! nat (r_current_question_index locked)))
                    (q_duration (QUESTIONS ! nat (r_current_question_index locked))) e rid
                    (filter (\<lambda>a. a_room_id a = rid
                                 \<and> a_question_index a = r_current_question_index locked)
                       (answers w)) p)
           (players w)"
proof -
  from assms(1) have rid: "r_id locked = rid" by (auto simp: find_Some_iff)
  let ?w1 = "update_rooms (\<lambda>r. r_id r = rid \<and> r_state r = QUESTION)
               (\<lambda>r. r\<lparr>r_state := RESULTS, r_last_activity_at := dbnow\<rparr>) w"
  let ?q = "QUESTIONS ! nat (r_current_question_index locked)"
  let ?fetched = "filter (\<lambda>a. a_room_id a = rid
      \<and> a_question_index a = r_current_question_index locked) (answers w)"
  let ?sc = "score_answers (q_correct_index ?q) (q_duration ?q) (Some e) rid dbnow ?fetched ?w1"
  have pa: "players ?w1 = players w" "answers ?w1 = answers w"
    by (simp_all add: update_rooms_def)
  have "fst ?sc = None" by (rule score_answers_fst)
  then obtain w2 where sc2: "?sc = (None, w2)" by (cases ?sc) simp
  have eq: "finalize_locked rid pin dbnow w =
              (None, emit (ToRoom pin)
                 (QuestionResults (q_correct_index ?q) (leaderboard_for_room_id w2 rid)) w2)"
    unfolding finalize_locked_def Let_def using assms rid sc2 by (simp add: pa)
  show "fst (finalize_locked rid pin dbnow w) = None" by (simp add: eq)
  have "map p_score (players w2) =
          map (\<lambda>p. p_score p + credit (q_correct_index ?q) (q_duration ?q) e rid ?fetched p) (players w)"
    using score_answers_scores [of "q_correct_index ?q" "q_duration ?q" e rid dbnow ?fetched ?w1]
    unfolding sc2 pa by simp
  then show "map p_score (players (snd (finalize_locked rid pin dbnow w))) =
         map (\<lambda>p. p_score p + credit (q_correct_index ?q) (q_duration ?q) e rid ?fetched p)
           (players w)"
    by (simp add: eq emit_def)
qed

lemma question_in_range_cases: "question_in_range i \<Longrightarrow> i = 0 \<or> i = 1"
  by (auto simp: question_in_range_def QUESTIONS_def)

lemma QUESTIONS_duration: "question_in_range i \<Longrightarrow> q_duration (QUESTIONS ! nat i) = 15"
  by (auto dest!: question_in_range_cases simp: QUESTIONS_def)

lemma credit_none:
  "\<forall>a \<in> set as. a_player_token a = p_player_token p \<longrightarrow> a_option_index a \<noteq> c \<Longrightarrow>
   credit c d e rid as p = 0"
  by (induction as) (auto simp: credit_Nil credit_Cons)

text \<open>
  C2. When a due question is finalized, every player's score grows by the points of the
  stored answers of that question that carry the player's token and name the correct
  option, and by nothing else: a player with no correct answer keeps the score. The points
  of a correct answer are \<open>1000\<close> plus the floor of \<open>(time_left / max 1 duration) * 500\<close>,
  where \<open>time_left\<close> is the seconds from the answer to the deadline, not below \<open>0\<close>, and
  the division of the microseconds by \<open>10^6\<close>, the division by the duration and the
  multiplication by \<open>500\<close> are each rounded to binary64, as Python's floats are; the bonus
  is never negative. While the time left is below \<open>2^51\<close> microseconds these are the
  points of the formula in exact arithmetic, \<open>spec_points\<close>, except that an answer whose
  exact bonus is a whole number (the microseconds left are a multiple of
  \<open>2000 * duration\<close>) may earn one point less. An answer at the deadline earns exactly
  \<open>1000\<close>, one given a full duration before it exactly \<open>1500\<close>.
\<close>

theorem scoring_points:
  assumes pk: "distinct (map r_id (rooms w))"
    and due: "finalize_guard pin now w = Some room"
    and ends: "r_question_ends_at room = Some ends_at"
    and rng: "question_in_range (r_current_question_index room)"
  shows "let q = QUESTIONS ! nat (r_current_question_index room);
             correct = q_correct_index q;
             duration = q_duration q;
             fetched = filter (\<lambda>a. a_room_id a = r_id room
                                    \<and> a_question_index a = r_current_question_index room)
                         (answers w);
             w' = snd (finish_question_if_due pin now dbnow w)
         in map p_score (players w')
              = map (\<lambda>p. p_score p + credit correct duration ends_at (r_id room) fetched p)
                  (players w) \<and>
            (\<forall>p. (\<forall>a \<in> set fetched. a_player_token a = p_player_token p
                                      \<longrightarrow> a_option_index a \<noteq> correct)
                 \<longrightarrow> credit correct duration ends_at (r_id room) fetched p = 0) \<and>
            (\<forall>answered_at.
               points_for ends_at answered_at duration
                 = 1000 + \<lfloor>fl (fl (max 0 (total_seconds (ends_at - answered_at))
                                      / real_of_int (max 1 duration)) * 500)\<rfloor> \<and>
               0 \<le> \<lfloor>fl (fl (max 0 (total_seconds (ends_at - answered_at))
                               / real_of_int (max 1 duration)) * 500)\<rfloor>) \<and>
            (\<forall>answered_at. ends_at - answered_at < 2 ^ 51 \<longrightarrow>
               points_for ends_at answered_at duration
                 = spec_points ends_at answered_at duration \<or>
               (2000 * duration) dvd (ends_at - answered_at) \<and>
               points_for ends_at answered_at duration
                 = spec_points ends_at answered_at duration - 1) \<and>
            points_for ends_at ends_at duration = 1000 \<and>
            points_for ends_at (ends_at - seconds duration) duration = 1500"
proof -
  let ?q = "QUESTIONS ! nat (r_current_question_index room)"
  let ?fetched = "filter (\<lambda>a. a_room_id a = r_id room
                              \<and> a_question_index a = r_current_question_index room) (answers w)"
  have d15: "q_duration ?q = 15" using rng by (rule QUESTIONS_duration)
  have fin: "finish_question_if_due pin now dbnow w = finalize_locked (r_id room) pin dbnow w"
    by (rule finish_due_locked(1) [OF pk due])
  have locked: "find (\<lambda>r. r_id r = r_id room \<and> r_state r = QUESTION) (rooms w) = Some room"
    by (rule finish_due_locked(2) [OF pk due])
  have c1: "map p_score (players (snd (finalize_locked (r_id room) pin dbnow w)))
              = map (\<lambda>p. p_score p + credit (q_correct_index ?q) (q_duration ?q) ends_at (r_id room)
                                       ?fetched p) (players w)"
    by (rule finalize_locked_scores(2) [OF locked ends rng])
  have c2: "credit (q_correct_index ?q) (q_duration ?q) ends_at (r_id room) ?fetched p = 0"
    if "\<forall>a \<in> set ?fetched. a_player_token a = p_player_token p
                                \<longrightarrow> a_option_index a \<noteq> q_correct_index ?q" for p
    using that by (rule credit_none)
  have c3: "points_for ends_at a (q_duration ?q)
              = 1000 + \<lfloor>fl (fl (max 0 (total_seconds (ends_at - a))
                                   / real_of_int (max 1 (q_duration ?q))) * 500)\<rfloor>" for a
    by (rule points_for_formula)
  have c3': "0 \<le> \<lfloor>fl (fl (max 0 (total_seconds (ends_at - a))
                            / real_of_int (max 1 (q_duration ?q))) * 500)\<rfloor>" for a
    using bonus_nonneg [of "max 0 (total_seconds (ends_at - a))" "q_duration ?q"] by simp
  have c4: "points_for ends_at ends_at (q_duration ?q) = 1000"
    by (rule points_for_late) simp
  have c5: "points_for ends_at (ends_at - seconds (q_duration ?q)) (q_duration ?q) = 1500"
    using points_for_full [of 15 "ends_at - seconds 15"] by (simp add: d15)
  have c6: "points_for ends_at a (q_duration ?q) = spec_points ends_at a (q_duration ?q) \<or>
            (2000 * q_duration ?q) dvd (ends_at - a) \<and>
            points_for ends_at a (q_duration ?q) = spec_points ends_at a (q_duration ?q) - 1"
    if "ends_at - a < 2 ^ 51" for a
    using points_for_spec [OF _ that, of "q_duration ?q"] by (simp add: d15)
  show ?thesis
    unfolding Let_def fin using c1 c2 c3 c3' c4 c5 c6 by blast
qed

lemma QUESTIONS_0 [simp]:
  "q_correct_index (QUESTIONS ! 0) = 1" "q_duration (QUESTIONS ! 0) = 15"
  "length (q_options (QUESTIONS ! 0)) = 4" "length QUESTIONS = 2"
  by (simp_all add: QUESTIONS_def)

lemma points_rounded: "points_for 15000000 12990000 15 = 1066"
proof -
  have a: "total_seconds (15000000 - 12990000) = 1131529406376837 / 562949953421312"
    by (simp add: total_seconds_def fl_eval)
  have q1: "max 0 (1131529406376837 / 562949953421312) / real_of_int (max 1 15)
              = (377176468792279 / 2814749767106560 :: real)"
    by simp
  have b: "fl (377176468792279 / 2814749767106560) = 4827858800541171 / 36028797018963968"
    by (simp add: fl_eval)
  have q2: "4827858800541171 / 36028797018963968 * 500
              = (603482350067646375 / 9007199254740992 :: real)"
    by simp
  have c: "fl (603482350067646375 / 9007199254740992) = 4714705859903487 / 70368744177664"
    by (simp add: fl_eval)
  have "\<lfloor>4714705859903487 / 70368744177664 :: real\<rfloor> = 66" by simp
  then show ?thesis
    unfolding points_for_formula a q1 b q2 c by simp
qed

lemma spec_points_exact: "spec_points 15000000 12990000 15 = 1067"
  by (simp add: spec_points_def)

theorem scoring_points_witness:
  "distinct (map r_id (rooms rounding_world)) \<and>
   finalize_guard ''123456'' 16000000 rounding_world = Some quiz_room \<and>
   r_question_ends_at quiz_room = Some 15000000 \<and>
   question_in_range (r_current_question_index quiz_room) \<and>
   map p_score (players (snd (finish_question_if_due ''123456'' 16000000 16000000
                                rounding_world)))
     = [1500, 1066]"
proof -
  have a: "distinct (map r_id (rooms rounding_world))"
    by (simp add: rounding_world_def quiz_world_def)
  have b: "finalize_guard ''123456'' 16000000 rounding_world = Some quiz_room"
    by (simp add: finalize_guard_def get_room_by_pin_def rounding_world_def quiz_world_def
          quiz_room_def require_room_state_def)
  have c: "r_question_ends_at quiz_room = Some 15000000" by (simp add: quiz_room_def)
  have d: "question_in_range (r_current_question_index quiz_room)"
    by (simp add: quiz_room_def question_in_range_def)
  have p: "points_for 15000000 0 15 = 1500"
    using points_for_full [of 15 0] by (simp add: seconds_def)
  have idx: "r_current_question_index quiz_room = 0" "r_id quiz_room = 1"
    by (simp_all add: quiz_room_def)
  have "map p_score (players (snd (finish_question_if_due ''123456'' 16000000 16000000
                                     rounding_world))) = [1500, 1066]"
    using scoring_points [OF a b c d, of 16000000]
    by (simp add: Let_def idx rounding_world_def quiz_world_def alice_def bob_def credit_def
          p points_rounded)
  with a b c d show ?thesis by simp
qed

text \<open>
  The points of the code are not always the points of the formula in exact arithmetic.
  With 2.01 of 15 seconds left the exact quotient times \<open>500\<close> is exactly \<open>67\<close>; the floats
  give \<open>66.99999999999999\<close>, and the answer earns \<open>1066\<close>.
\<close>

theorem points_rounding_counterexample:
  "points_for 15000000 12990000 15 = 1066 \<and> spec_points 15000000 12990000 15 = 1067"
  using points_rounded spec_points_exact by simp

subsection \<open>What the handlers leave alone\<close>

lemma start_question_frame [simp]:
  "players (start_question pin t w) = players w"
  "answers (start_question pin t w) = answers w"
  "room_seq (start_question pin t w) = room_seq w"
  "player_seq (start_question pin t w) = player_seq w"
  "answer_seq (start_question pin t w) = answer_seq w"
  "socket_index (start_question pin t w) = socket_index w"
  "rate_limits (start_question pin t w) = rate_limits w"
  "groups (start_question pin t w) = groups w"
  by (simp_all add: start_question_def Let_def split: option.splits)

lemma close_room_frame [simp]:
  "players (close_room pin reason t w) = players w"
  "answers (close_room pin reason t w) = answers w"
  "room_seq (close_room pin reason t w) = room_seq w"
  "player_seq (close_room pin reason t w) = player_seq w"
  "answer_seq (close_room pin reason t w) = answer_seq w"
  "socket_index (close_room pin reason t w) = socket_index w"
  "rate_limits (close_room pin reason t w) = rate_limits w"
  "groups (close_room pin reason t w) = groups w"
  by (simp_all add: close_room_def split: option.splits)

lemma close_each_frame [simp]:
  "players (close_each pins t w) = players w" "answers (close_each pins t w) = answers w"
  "room_seq (close_each pins t w) = room_seq w" "player_seq (close_each pins t w) = player_seq w"
  "answer_seq (close_each pins t w) = answer_seq w"
  "socket_index (close_each pins t w) = socket_index w"
  "rate_limits (close_each pins t w) = rate_limits w" "groups (close_each pins t w) = groups w"
  by (induction pins arbitrary: w) simp_all

lemma cleanup_round_frame [simp]:
  "players (cleanup_round t w) = players w"
  "answers (cleanup_round t w) = answers w"
  "room_seq (cleanup_round t w) = room_seq w"
  "player_seq (cleanup_round t w) = player_seq w"
  "answer_seq (cleanup_round t w) = answer_seq w"
  "socket_index (cleanup_round t w) = socket_index w"
  "rate_limits (cleanup_round t w) = rate_limits w"
  "groups (cleanup_round t w) = groups w"
  by (simp_all add: cleanup_round_def)

lemma score_answers_fields [simp]:
  "rooms (snd (score_answers c d ends rid t as w)) = rooms w"
  "answers (snd (score_answers c d ends rid t as w)) = answers w"
  "outbox (snd (score_answers c d ends rid t as w)) = outbox w"
  "socket_index (snd (score_answers c d ends rid t as w)) = socket_index w"
  "rate_limits (snd (score_answers c d ends rid t as w)) = rate_limits w"
  "groups (snd (score_answers c d ends rid t as w)) = groups w"
  "room_seq (snd (score_answers c d ends rid t as w)) = room_seq w"
  "player_seq (snd (score_answers c d ends rid t as w)) = player_seq w"
  "answer_seq (snd (score_answers c d ends rid t as w)) = answer_seq w"
  using score_answers_frame [of c d ends rid t as w] by simp_all

lemma finalize_locked_frame [simp]:
  "answers (snd (finalize_locked rid pin t w)) = answers w"
  "room_seq (snd (finalize_locked rid pin t w)) = room_seq w"
  "player_seq (snd (finalize_locked rid pin t w)) = player_seq w"
  "answer_seq (snd (finalize_locked rid pin t w)) = answer_seq w"
  "socket_index (snd (finalize_locked rid pin t w)) = socket_index w"
  "rate_limits (snd (finalize_locked rid pin t w)) = rate_limits w"
  "groups (snd (finalize_locked rid pin t w)) = groups w"
  by (simp_all add: finalize_locked_def Let_def split_beta split: option.splits)

lemma finish_question_if_due_frame [simp]:
  "answers (snd (finish_question_if_due pin now t w)) = answers w"
  "room_seq (snd (finish_question_if_due pin now t w)) = room_seq w"
  "player_seq (snd (finish_question_if_due pin now t w)) = player_seq w"
  "answer_seq (snd (finish_question_if_due pin now t w)) = answer_seq w"
  "socket_index (snd (finish_question_if_due pin now t w)) = socket_index w"
  "rate_limits (snd (finish_question_if_due pin now t w)) = rate_limits w"
  "groups (snd (finish_question_if_due pin now t w)) = groups w"
  by (simp_all add: finish_question_if_due_def split: option.splits)

lemma finish_each_fields:
  "answers (snd (finish_each pins now t w)) = answers w \<and>
   room_seq (snd (finish_each pins now t w)) = room_seq w \<and>
   player_seq (snd (finish_each pins now t w)) = player_seq w \<and>
   answer_seq (snd (finish_each pins now t w)) = answer_seq w \<and>
   socket_index (snd (finish_each pins now t w)) = socket_index w \<and>
   rate_limits (snd (finish_each pins now t w)) = rate_limits w \<and>
   groups (snd (finish_each pins now t w)) = groups w"
  by (induction pins arbitrary: w) (simp_all add: split_beta split: option.splits)

lemma finish_each_frame [simp]:
  "answers (snd (finish_each pins now t w)) = answers w"
  "room_seq (snd (finish_each pins now t w)) = room_seq w"
  "player_seq (snd (finish_each pins now t w)) = player_seq w"
  "answer_seq (snd (finish_each pins now t w)) = answer_seq w"
  "socket_index (snd (finish_each pins now t w)) = socket_index w"
  "rate_limits (snd (finish_each pins now t w)) = rate_limits w"
  "groups (snd (finish_each pins now t w)) = groups w"
  using finish_each_fields [of pins now t w] by simp_all

lemma watchdog_round_frame [simp]:
  "answers (snd (watchdog_round now t w)) = answers w"
  "room_seq (snd (watchdog_round now t w)) = room_seq w"
  "player_seq (snd (watchdog_round now t w)) = player_seq w"
  "answer_seq (snd (watchdog_round now t w)) = answer_seq w"
  "socket_index (snd (watchdog_round now t w)) = socket_index w"
  "rate_limits (snd (watchdog_round now t w)) = rate_limits w"
  "groups (snd (watchdog_round now t w)) = groups w"
  by (simp_all add: watchdog_round_def)

lemma verify_host_frame [simp]:
  "rooms (snd (verify_host_and_get_room s data w)) = rooms w"
  "players (snd (verify_host_and_get_room s data w)) = players w"
  "answers (snd (verify_host_and_get_room s data w)) = answers w"
  "room_seq (snd (verify_host_and_get_room s data w)) = room_seq w"
  "player_seq (snd (verify_host_and_get_room s data w)) = player_seq w"
  "answer_seq (snd (verify_host_and_get_room s data w)) = answer_seq w"
  "socket_index (snd (verify_host_and_get_room s data w)) = socket_index w"
  "rate_limits (snd (verify_host_and_get_room s data w)) = rate_limits w"
  "groups (snd (verify_host_and_get_room s data w)) = groups w"
  by (simp_all add: verify_host_and_get_room_def split: option.splits)

lemma start_game_frame [simp]:
  "players (start_game s data t w) = players w"
  "answers (start_game s data t w) = answers w"
  "room_seq (start_game s data t w) = room_seq w"
  "player_seq (start_game s data t w) = player_seq w"
  "answer_seq (start_game s data t w) = answer_seq w"
  "socket_index (start_game s data t w) = socket_index w"
  "rate_limits (start_game s data t w) = rate_limits w"
  "groups (start_game s data t w) = groups w"
  by (simp_all add: start_game_def split_beta split: option.splits)

lemma next_question_frame [simp]:
  "players (next_question s data t w) = players w"
  "answers (next_question s data t w) = answers w"
  "room_seq (next_question s data t w) = room_seq w"
  "player_seq (next_question s data t w) = player_seq w"
  "answer_seq (next_question s data t w) = answer_seq w"
  "socket_index (next_question s data t w) = socket_index w"
  "rate_limits (next_question s data t w) = rate_limits w"
  "groups (next_question s data t w) = groups w"
  by (simp_all add: next_question_def Let_def split_beta split: option.splits)

lemma on_disconnect_frame [simp]:
  "answers (on_disconnect U s t w) = answers w"
  "room_seq (on_disconnect U s t w) = room_seq w"
  "player_seq (on_disconnect U s t w) = player_seq w"
  "answer_seq (on_disconnect U s t w) = answer_seq w"
  "rate_limits (on_disconnect U s t w) = rate_limits w"
  "outbox (on_disconnect U s t w) = outbox w"
  by (simp_all add: on_disconnect_def Let_def split: option.splits)

lemma reconnect_player_frame [simp]:
  "answers (reconnect_player U s data t w) = answers w"
  "room_seq (reconnect_player U s data t w) = room_seq w"
  "player_seq (reconnect_player U s data t w) = player_seq w"
  "answer_seq (reconnect_player U s data t w) = answer_seq w"
  "rate_limits (reconnect_player U s data t w) = rate_limits w"
  by (simp_all add: reconnect_player_def Let_def split: option.splits)

lemma reconnect_host_frame [simp]:
  "players (reconnect_host U s data t w) = players w"
  "answers (reconnect_host U s data t w) = answers w"
  "room_seq (reconnect_host U s data t w) = room_seq w"
  "player_seq (reconnect_host U s data t w) = player_seq w"
  "answer_seq (reconnect_host U s data t w) = answer_seq w"
  "rate_limits (reconnect_host U s data t w) = rate_limits w"
  by (simp_all add: reconnect_host_def Let_def split: option.splits)

lemma create_room_frame [simp]:
  "players (snd (create_room s draw tok t0 t w)) = players w"
  "answers (snd (create_room s draw tok t0 t w)) = answers w"
  "player_seq (snd (create_room s draw tok t0 t w)) = player_seq w"
  "answer_seq (snd (create_room s draw tok t0 t w)) = answer_seq w"
  by (simp_all add: create_room_def Let_def split_beta split: option.splits sum.splits)

lemma join_game_frame [simp]:
  "answers (snd (join_game s data tok t0 t w)) = answers w"
  "room_seq (snd (join_game s data tok t0 t w)) = room_seq w"
  "answer_seq (snd (join_game s data tok t0 t w)) = answer_seq w"
  by (simp_all add: join_game_def Let_def split_beta split: option.splits)

lemma submit_answer_frame [simp]:
  "players (submit_answer U s data t0 now t w) = players w"
  "room_seq (submit_answer U s data t0 now t w) = room_seq w"
  "player_seq (submit_answer U s data t0 now t w) = player_seq w"
  "socket_index (submit_answer U s data t0 now t w) = socket_index w"
  "groups (submit_answer U s data t0 now t w) = groups w"
  "outbox (submit_answer U s data t0 now t w) = outbox w"
  by (simp_all add: submit_answer_def Let_def split: option.splits option_field.splits)

subsection \<open>The rate limiter\<close>

lemma bucket_of_limited_same:
  "bucket_of (snd (is_rate_limited key limit window t rl)) key =
     (let b = filter (\<lambda>x. fl (t - x) < of_int window) (bucket_of rl key)
      in if limit \<le> int (length b) then b else b @ [t])"
  by (simp add: is_rate_limited_def bucket_of_def Let_def)

lemma bucket_of_limited_other:
  "k \<noteq> key \<Longrightarrow> bucket_of (snd (is_rate_limited key limit window t rl)) k = bucket_of rl k"
  by (simp add: is_rate_limited_def bucket_of_def Let_def)

lemma fst_is_rate_limited:
  "fst (is_rate_limited key limit window t rl) =
     (limit \<le> int (length (filter (\<lambda>x. fl (t - x) < of_int window) (bucket_of rl key))))"
  by (simp add: is_rate_limited_def Let_def)

lemma attempts_admitted:
  "in_window window b ts \<Longrightarrow> bucket_of rl key = b \<Longrightarrow> int (length b + length ts) \<le> limit \<Longrightarrow>
   fst (attempts key limit window ts rl) = replicate (length ts) False \<and>
   bucket_of (snd (attempts key limit window ts rl)) key = b @ ts"
proof (induction ts arbitrary: b rl)
  case Nil
  then show ?case by simp
next
  case (Cons t ts)
  from Cons.prems(1) have keep: "filter (\<lambda>x. fl (t - x) < of_int window) b = b"
    and rest: "in_window window (b @ [t]) ts"
    by simp_all
  from Cons.prems(3) have lt: "\<not> limit \<le> int (length b)" by simp
  let ?r = "is_rate_limited key limit window t rl"
  have adm: "fst ?r = False"
    using keep lt Cons.prems(2) by (simp add: fst_is_rate_limited)
  have bk: "bucket_of (snd ?r) key = b @ [t]"
    using keep lt Cons.prems(2) by (simp add: bucket_of_limited_same)
  have "int (length (b @ [t]) + length ts) \<le> limit"
    using Cons.prems(3) by simp
  from Cons.IH [OF rest bk this] adm show ?case
    by (simp add: Let_def)
qed

lemma denied_changes_nothing:
  assumes "int (length (bucket_of rl key)) \<le> limit"
    and "fst (is_rate_limited key limit window t rl)"
  shows "bucket_of (snd (is_rate_limited key limit window t rl)) k = bucket_of rl k"
proof (cases "k = key")
  case False
  then show ?thesis by (simp add: bucket_of_limited_other)
next
  case True
  let ?b = "filter (\<lambda>x. fl (t - x) < of_int window) (bucket_of rl key)"
  from assms(2) have "limit \<le> int (length ?b)" by (simp add: fst_is_rate_limited)
  with assms(1) have "length ?b = length (bucket_of rl key)"
    using length_filter_le [of "\<lambda>x. fl (t - x) < of_int window" "bucket_of rl key"] by linarith
  then have "?b = bucket_of rl key"
    by (metis filter_True length_filter_less linorder_neq_iff nat_less_le length_filter_le)
  with \<open>limit \<le> int (length ?b)\<close> True show ?thesis
    by (simp add: bucket_of_limited_same)
qed

lemma expired_admits:
  assumes "int (length (bucket_of rl key)) \<le> limit"
    and "x \<in> set (bucket_of rl key)" and "\<not> fl (t - x) < of_int window"
  shows "\<not> fst (is_rate_limited key limit window t rl)"
proof -
  let ?b = "filter (\<lambda>x. fl (t - x) < of_int window) (bucket_of rl key)"
  have "length ?b < length (bucket_of rl key)"
    using assms(2,3) by (intro length_filter_less) auto
  with assms(1) show ?thesis by (simp add: fst_is_rate_limited)
qed

text \<open>
  C8. For a key with limit \<open>L\<close> and window \<open>W\<close> whose bucket is empty: \<open>L\<close> attempts, each
  inside the window of those before it, are all admitted. The next attempt, still inside
  the window of all of them, is refused, and after it every bucket of the dictionary holds
  what it held before. An attempt made when the window has passed since the first of the
  admitted ones (\<open>hd ts\<close>) is admitted again. "Inside the window" is the test of the code:
  the float difference of the two clock readings is below \<open>W\<close>.
\<close>

theorem rate_limiter_window:
  assumes fresh: "bucket_of rl key = []"
    and len: "int (length ts) = limit"
    and win: "in_window window [] ts"
  shows "fst (attempts key limit window ts rl) = replicate (length ts) False \<and>
         ((\<forall>x \<in> set ts. fl (t - x) < of_int window) \<longrightarrow>
            fst (is_rate_limited key limit window t (snd (attempts key limit window ts rl))) \<and>
            (\<forall>k. bucket_of (snd (is_rate_limited key limit window t
                     (snd (attempts key limit window ts rl)))) k
                  = bucket_of (snd (attempts key limit window ts rl)) k)) \<and>
         (ts \<noteq> [] \<and> \<not> fl (t' - hd ts) < of_int window \<longrightarrow>
            \<not> fst (is_rate_limited key limit window t' (snd (attempts key limit window ts rl))))"
proof -
  let ?rl = "snd (attempts key limit window ts rl)"
  from attempts_admitted [OF win fresh] len
  have adm: "fst (attempts key limit window ts rl) = replicate (length ts) False"
    and bk: "bucket_of ?rl key = ts"
    by simp_all
  have full: "int (length (bucket_of ?rl key)) \<le> limit" using bk len by simp
  have denied: "fst (is_rate_limited key limit window t ?rl)"
    if "\<forall>x \<in> set ts. fl (t - x) < of_int window"
    using that bk len by (simp add: fst_is_rate_limited)
  have again: "\<not> fst (is_rate_limited key limit window t' ?rl)"
    if "ts \<noteq> []" "\<not> fl (t' - hd ts) < of_int window"
    using expired_admits [OF full, of "hd ts" t' window] that bk by simp
  show ?thesis
    using adm denied again denied_changes_nothing [OF full] by blast
qed

theorem rate_limiter_window_witness:
  "fst (attempts ''answer:s1'' 3 3 [100, 101, 102] Map.empty) = [False, False, False] \<and>
   fst (is_rate_limited ''answer:s1'' 3 3 (205 / 2)
          (snd (attempts ''answer:s1'' 3 3 [100, 101, 102] Map.empty))) \<and>
   \<not> fst (is_rate_limited ''answer:s1'' 3 3 103
          (snd (attempts ''answer:s1'' 3 3 [100, 101, 102] Map.empty)))"
proof -
  have f: "fl 1 = 1" "fl 2 = 2" "fl 3 = 3" "fl (1 / 2) = 1 / 2" "fl (3 / 2) = 3 / 2"
    "fl (5 / 2) = 5 / 2"
    by (simp_all add: fl_eval)
  have a: "bucket_of Map.empty ''answer:s1'' = []" by (simp add: bucket_of_def)
  have b: "int (length [100, 101, 102 :: real]) = 3" by simp
  have c: "in_window 3 [] [100, 101, 102]" by (simp add: f)
  show ?thesis
    using rate_limiter_window [OF a b c, of "205 / 2" 103] by (simp add: f)
qed


subsection \<open>Finalizing once\<close>



lemma finalize_locked_no_row:
  "find (\<lambda>r. r_id r = rid \<and> r_state r = QUESTION) (rooms w) = None \<Longrightarrow>
   finalize_locked rid pin dbnow w = (None, w)"
  by (simp add: finalize_locked_def)







lemma nnq_trans: "no_new_question w w' \<Longrightarrow> no_new_question w' w'' \<Longrightarrow> no_new_question w w''"
  unfolding no_new_question_def by (metis (no_types, lifting))

lemma nnq_map:
  assumes "rooms w' = map (\<lambda>r. if P r then f r else r) (rooms w)"
    and "\<And>r. r_id (f r) = r_id r" and "\<And>r. r_state (f r) = QUESTION \<Longrightarrow> r_state r = QUESTION"
  shows "no_new_question w w'"
  unfolding no_new_question_def assms(1) using assms(2,3) by (auto split: if_splits)






lemma nnq_touch: "no_new_question w w' \<Longrightarrow> no_new_question w (touch_room_activity rid t w')"
  by (erule nnq_trans) (rule nnq_map [where P = "\<lambda>r. r_id r = rid"
          and f = "\<lambda>r. r\<lparr>r_last_activity_at := t\<rparr>"], simp_all)

















lemma QUESTIONS_1 [simp]:
  "q_correct_index (QUESTIONS ! Suc 0) = 2" "q_duration (QUESTIONS ! Suc 0) = 15"
  "length (q_options (QUESTIONS ! Suc 0)) = 4"
  by (simp_all add: QUESTIONS_def)











subsection \<open>Pins\<close>

lemma generate_unique_pin_loop_open:
  "generate_unique_pin_loop w draw i n = Inr pin \<Longrightarrow> get_room_by_pin w pin = None"
  by (induction n arbitrary: i) (auto simp: Let_def split: if_splits)

lemma generate_unique_pin_open:
  "generate_unique_pin w draw n = Inr pin \<Longrightarrow> get_room_by_pin w pin = None"
  unfolding generate_unique_pin_def by (rule generate_unique_pin_loop_open)

lemma generate_unique_pin_loop_exhausted:
  "(\<And>k. k < n \<Longrightarrow> get_room_by_pin w (draw (i + k)) \<noteq> None) \<Longrightarrow>
   generate_unique_pin_loop w draw i n = Inl (RuntimeError ''Failed to generate unique PIN'')"
proof (induction n arbitrary: i)
  case 0
  show ?case by simp
next
  case (Suc n)
  from Suc.prems [of 0] have "get_room_by_pin w (draw i) \<noteq> None" by simp
  moreover have "generate_unique_pin_loop w draw (Suc i) n
                   = Inl (RuntimeError ''Failed to generate unique PIN'')"
  proof (rule Suc.IH)
    fix k assume "k < n"
    with Suc.prems [of "Suc k"] show "get_room_by_pin w (draw (Suc i + k)) \<noteq> None" by simp
  qed
  ultimately show ?case by (simp add: Let_def)
qed

lemma generate_unique_pin_exhausted:
  "(\<And>k. k < n \<Longrightarrow> get_room_by_pin w (draw k) \<noteq> None) \<Longrightarrow>
   generate_unique_pin w draw n = Inl (RuntimeError ''Failed to generate unique PIN'')"
  unfolding generate_unique_pin_def using generate_unique_pin_loop_exhausted [of n w draw 0]
  by simp

lemma generate_unique_pin_first:
  "get_room_by_pin w (draw 0) = None \<Longrightarrow> 0 < n \<Longrightarrow> generate_unique_pin w draw n = Inr (draw 0)"
  by (cases n) (simp_all add: generate_unique_pin_def)

text \<open>
  C9. \<^verbatim>\<open>generate_unique_pin\<close> looks for the pin among the open rooms only, so it hands out
  the pin of a closed room; the table's constraint \<^verbatim>\<open>pin VARCHAR(6) UNIQUE\<close> covers closed
  rows too, so the \<^verbatim>\<open>INSERT\<close> of \<^verbatim>\<open>create_room\<close> then raises. Here the only room is closed
  and the draw is its pin: the handler ends in the exception, the sequence and the rate
  limiter's bucket have advanced, and no room, registration or event has been made.
\<close>

theorem create_room_closed_pin_rejected:
  "create_room ''s-new'' (\<lambda>i. ''123456'') ''host-2'' 100 30000000 closed_world =
     (Some (UniqueViolation ''rooms_pin_key''),
      closed_world\<lparr>room_seq := 2, rate_limits := [''create:s-new'' \<mapsto> [100]]\<rparr>)"
proof -
  let ?w1 = "closed_world\<lparr>rate_limits := [''create:s-new'' \<mapsto> [100]]\<rparr>"
  have rl: "is_rate_limited (''create:'' @ ''s-new'') CREATE_ROOM_LIMIT CREATE_ROOM_WINDOW 100
              (rate_limits closed_world) = (False, [''create:s-new'' \<mapsto> [100]])"
    by (simp add: is_rate_limited_def bucket_of_def closed_world_def quiz_world_def
          CREATE_ROOM_LIMIT_def)
  have "get_room_by_pin ?w1 ''123456'' = None"
    by (simp add: get_room_by_pin_def closed_world_def quiz_room_def)
  then have gen: "generate_unique_pin ?w1 (\<lambda>i. ''123456'') 20 = Inr ''123456''"
    using generate_unique_pin_first [of ?w1 "\<lambda>i. ''123456''" 20] by simp
  have ins: "insert_room ''123456'' ''host-2'' 30000000 ?w1 =
               (Some (UniqueViolation ''rooms_pin_key''),
                closed_world\<lparr>room_seq := 2, rate_limits := [''create:s-new'' \<mapsto> [100]]\<rparr>)"
    by (simp add: insert_room_def closed_world_def quiz_world_def quiz_room_def)
  show ?thesis
    unfolding create_room_def rl Let_def fst_conv snd_conv gen by (simp add: ins)
qed


subsection \<open>Answers are stored in time and kept\<close>

lemma get_room_by_pin_cong: "rooms w' = rooms w \<Longrightarrow> get_room_by_pin w' pin = get_room_by_pin w pin"
  by (simp add: get_room_by_pin_def)

lemma get_room_by_pin_rate_limits [simp]:
  "get_room_by_pin (w\<lparr>rate_limits := rl\<rparr>) pin = get_room_by_pin w pin"
  by (simp add: get_room_by_pin_def)

lemma answers_insert_answer:
  "answers (insert_answer rid tok q opt t w) = answers w \<or>
   answers (insert_answer rid tok q opt t w)
     = answers w @ [\<lparr>a_id = Suc (answer_seq w), a_room_id = rid, a_player_token = tok,
                      a_question_index = q, a_option_index = opt, a_answered_at = t\<rparr>]"
  by (simp add: insert_answer_def Let_def)

lemma submit_answer_stored_only:
  assumes "answers (submit_answer U s data t now dbnow w) \<noteq> answers w"
  shows "\<exists>pin room e. ad_pin data = Some pin \<and> get_room_by_pin w pin = Some room \<and>
           r_state room = QUESTION \<and> r_question_ends_at room = Some e \<and> now \<le> e"
  using assms
  by (simp add: submit_answer_def Let_def require_room_state_def
        split: option.splits if_splits option_field.splits)

lemma answers_submit_answer:
  "\<exists>new. answers (submit_answer U s data t now dbnow w) = answers w @ new"
proof -
  have "answers (submit_answer U s data t now dbnow w) = answers w \<or>
        (\<exists>row. answers (submit_answer U s data t now dbnow w) = answers w @ [row])"
    by (simp add: submit_answer_def insert_answer_def Let_def
          split: option.splits option_field.splits)
  then show ?thesis by auto
qed

lemma answers_step: "\<exists>new. answers (step U a w) = answers w @ new"
proof (cases a)
  case (SubmitAnswer s data t now dbnow)
  then show ?thesis using answers_submit_answer by simp
qed (simp_all add: on_connect_def)

lemma answers_run: "\<exists>new. answers (run U as w) = answers w @ new"
proof (induction as arbitrary: w)
  case Nil
  show ?case by simp
next
  case (Cons a as)
  from answers_step [of U a w] obtain n1 where "answers (step U a w) = answers w @ n1" ..
  moreover from Cons.IH [of "step U a w"] obtain n2
    where "answers (run U as (step U a w)) = answers (step U a w) @ n2" ..
  ultimately show ?case by simp
qed

text \<open>
  C3, as the code has it. \<^verbatim>\<open>submit_answer\<close> stores a row only when the open room of the pin
  is in \<open>QUESTION\<close> and the process clock is not past the stored deadline
  (\<open>now \<le> question_ends_at\<close>); otherwise the table of answers is as before. Whatever
  happens afterwards, the rows already stored stay as they are, in place: a run of the
  program only appends to the table.
\<close>

theorem answers_stored_in_time:
  "(answers (submit_answer U s data t now dbnow w) \<noteq> answers w \<longrightarrow>
      (\<exists>pin room e. ad_pin data = Some pin \<and> get_room_by_pin w pin = Some room \<and>
         r_state room = QUESTION \<and> r_question_ends_at room = Some e \<and> now \<le> e)) \<and>
   (\<exists>new. answers (run U as w) = answers w @ new)"
  using submit_answer_stored_only [of U s data t now dbnow w] answers_run [of U as w] by blast


lemma alice_submits:
  "now \<le> 15000000 \<Longrightarrow>
   submit_answer Some ''s-alice'' alice_answer t now dbnow unanswered_world =
     unanswered_world
       \<lparr>rooms := [quiz_room\<lparr>r_last_activity_at := dbnow\<rparr>],
        answers := [\<lparr>a_id = 3, a_room_id = 1, a_player_token = ''alice-1'',
                     a_question_index = 0, a_option_index = 1, a_answered_at = dbnow\<rparr>],
        answer_seq := 3,
        rate_limits := [''answer:s-alice'' \<mapsto> [t]]\<rparr>"
  by (simp add: submit_answer_def alice_answer_def unanswered_world_def quiz_world_def
        quiz_room_def quiz_sockets_def is_rate_limited_def bucket_of_def ANSWER_RATE_LIMIT_def
        get_room_by_pin_def require_room_state_def question_in_range_def insert_answer_def
        touch_room_activity_def update_rooms_def)

text \<open>
  The claim that a submission at the deadline stores nothing fails: with the deadline at
  second 15 and the clock reading exactly that, Alice's row is stored. The code refuses
  only \<^verbatim>\<open>utc_now() > question_ends_at\<close>, and \<^verbatim>\<open>finish_question_if_due\<close> likewise waits
  until the clock is past the deadline.
\<close>

theorem answer_at_deadline_counterexample:
  "r_state quiz_room = QUESTION \<and> r_question_ends_at quiz_room = Some 15000000 \<and>
   answers (submit_answer Some ''s-alice'' alice_answer 15 15000000 15000001 unanswered_world)
     = [\<lparr>a_id = 3, a_room_id = 1, a_player_token = ''alice-1'', a_question_index = 0,
         a_option_index = 1, a_answered_at = 15000001\<rparr>]"
  by (simp add: alice_submits) (simp add: quiz_room_def)

theorem answers_stored_in_time_witness:
  "answers (submit_answer Some ''s-alice'' alice_answer 14 14000000 14000001 unanswered_world)
     \<noteq> answers unanswered_world \<and>
   get_room_by_pin unanswered_world ''123456'' = Some quiz_room \<and>
   r_state quiz_room = QUESTION \<and> r_question_ends_at quiz_room = Some 15000000 \<and>
   (\<exists>new. answers (run Some [SubmitAnswer ''s-alice'' alice_answer 14 14000000 14000001]
                   unanswered_world) = answers unanswered_world @ new)"
proof -
  have a: "answers (submit_answer Some ''s-alice'' alice_answer 14 14000000 14000001
             unanswered_world) \<noteq> answers unanswered_world"
    by (simp add: alice_submits) (simp add: unanswered_world_def)
  have b: "get_room_by_pin unanswered_world ''123456'' = Some quiz_room"
    by (simp add: get_room_by_pin_def unanswered_world_def quiz_world_def quiz_room_def)
  have c: "r_state quiz_room = QUESTION" "r_question_ends_at quiz_room = Some 15000000"
    by (simp_all add: quiz_room_def)
  from a b c
    answers_stored_in_time [of Some "''s-alice''" alice_answer 14 14000000 14000001
      unanswered_world "[SubmitAnswer ''s-alice'' alice_answer 14 14000000 14000001]"]
  show ?thesis by blast
qed


subsection \<open>Actions outside their state\<close>

lemma verify_host_cases [case_names missing not_found bad_token unregistered ok]:
  assumes "verify_host_and_get_room s data w
             = (None, emit (ToSid s) (Error ''Missing pin/host_token'') w) \<Longrightarrow> thesis"
    and "\<And>pin tok. present (hr_pin data) = Some pin \<Longrightarrow> present (hr_host_token data) = Some tok \<Longrightarrow>
           get_room_by_pin w pin = None \<Longrightarrow>
           verify_host_and_get_room s data w
             = (None, emit (ToSid s) (Error ''Room not found'') w) \<Longrightarrow> thesis"
    and "\<And>pin tok room. present (hr_pin data) = Some pin \<Longrightarrow>
           present (hr_host_token data) = Some tok \<Longrightarrow>
           get_room_by_pin w pin = Some room \<Longrightarrow> r_host_token room \<noteq> tok \<Longrightarrow>
           verify_host_and_get_room s data w
             = (None, emit (ToSid s) (Error ''Invalid host token'') w) \<Longrightarrow> thesis"
    and "\<And>pin tok room. present (hr_pin data) = Some pin \<Longrightarrow>
           present (hr_host_token data) = Some tok \<Longrightarrow>
           get_room_by_pin w pin = Some room \<Longrightarrow> r_host_token room = tok \<Longrightarrow>
           (\<forall>m. socket_index w s = Some m \<longrightarrow> m_role m \<noteq> Host \<or> m_pin m \<noteq> pin) \<Longrightarrow>
           verify_host_and_get_room s data w
             = (None, emit (ToSid s) (Error ''Host socket not registered. Reconnect host.'') w)
           \<Longrightarrow> thesis"
    and "\<And>pin tok room m. present (hr_pin data) = Some pin \<Longrightarrow>
           present (hr_host_token data) = Some tok \<Longrightarrow>
           get_room_by_pin w pin = Some room \<Longrightarrow> r_host_token room = tok \<Longrightarrow>
           socket_index w s = Some m \<Longrightarrow> m_role m = Host \<Longrightarrow> m_pin m = pin \<Longrightarrow>
           verify_host_and_get_room s data w = (Some room, w) \<Longrightarrow> thesis"
  shows thesis
proof (cases "present (hr_pin data)")
  case None
  then show ?thesis using assms(1) by (simp add: verify_host_and_get_room_def)
next
  case pin: (Some pin)
  show ?thesis
  proof (cases "present (hr_host_token data)")
    case None
    then show ?thesis using assms(1) pin by (simp add: verify_host_and_get_room_def)
  next
    case tok: (Some tok)
    show ?thesis
    proof (cases "get_room_by_pin w pin")
      case None
      then show ?thesis using assms(2) [OF pin tok] pin tok
        by (simp add: verify_host_and_get_room_def)
    next
      case room: (Some room)
      show ?thesis
      proof (cases "r_host_token room = tok")
        case False
        then show ?thesis using assms(3) [OF pin tok room] pin tok room
          by (simp add: verify_host_and_get_room_def)
      next
        case True
        show ?thesis
        proof (cases "socket_index w s")
          case None
          then show ?thesis using assms(4) [OF pin tok room True] pin tok room True
            by (simp add: verify_host_and_get_room_def)
        next
          case (Some m)
          show ?thesis
          proof (cases "m_role m = Host \<and> m_pin m = pin")
            case False
            then show ?thesis using assms(4) [OF pin tok room True] pin tok room True Some
              by (auto simp: verify_host_and_get_room_def)
          next
            case t: True
            then show ?thesis using assms(5) [OF pin tok room True Some] pin tok room True Some
              by (simp add: verify_host_and_get_room_def)
          qed
        qed
      qed
    qed
  qed
qed

lemma start_game_outside_guard:
  assumes "present (hr_pin data) = Some pin" and "get_room_by_pin w pin = Some room"
    and "r_state room \<noteq> LOBBY"
  shows "\<exists>msg. start_game s data dbnow w = emit (ToSid s) (Error msg) w"
proof (cases rule: verify_host_cases [of s data w])
  case ok
  with assms show ?thesis by (simp add: start_game_def require_room_state_def; blast)
qed (simp add: start_game_def; blast)+

lemma next_question_outside_guard:
  assumes "present (hr_pin data) = Some pin" and "get_room_by_pin w pin = Some room"
    and "r_state room \<noteq> RESULTS"
  shows "\<exists>msg. next_question s data dbnow w = emit (ToSid s) (Error msg) w"
proof (cases rule: verify_host_cases [of s data w])
  case ok
  with assms show ?thesis by (simp add: next_question_def require_room_state_def; blast)
qed (simp add: next_question_def; blast)+

lemma start_game_verified_outside_guard:
  "verify_host_and_get_room s data w = (Some room, w) \<Longrightarrow> r_state room \<noteq> LOBBY \<Longrightarrow>
   start_game s data dbnow w = emit (ToSid s) (Error ''start_game allowed only in LOBBY'') w"
  by (simp add: start_game_def require_room_state_def)

lemma next_question_verified_outside_guard:
  "verify_host_and_get_room s data w = (Some room, w) \<Longrightarrow> r_state room \<noteq> RESULTS \<Longrightarrow>
   next_question s data dbnow w
     = emit (ToSid s) (Error ''next_question allowed only in RESULTS'') w"
  by (simp add: next_question_def require_room_state_def)

lemma submit_answer_outside_guard:
  assumes "ad_pin data = Some pin" and "get_room_by_pin w pin = Some room"
    and "r_state room \<noteq> QUESTION"
  shows "submit_answer U s data t now dbnow w =
           w\<lparr>rate_limits := snd (is_rate_limited (''answer:'' @ s) ANSWER_RATE_LIMIT
                                  ANSWER_RATE_WINDOW t (rate_limits w))\<rparr>"
  using assms
  by (simp add: submit_answer_def Let_def require_room_state_def split: option.splits)

text \<open>
  C4, as the code has it. \<^verbatim>\<open>start_game\<close> against an open room that is not in \<open>LOBBY\<close>,
  and \<^verbatim>\<open>next_question\<close> against one that is not in \<open>RESULTS\<close>, leave the world as it was
  but for one \<^verbatim>\<open>error\<close> event sent to the caller; for the verified host the message
  names the state required. \<^verbatim>\<open>submit_answer\<close> against an open room that is not in
  \<open>QUESTION\<close> changes nothing but the rate limiter's dictionary, and sends nothing.
\<close>

theorem outside_guard_state:
  "(present (hr_pin hdata) = Some pin \<and> get_room_by_pin w pin = Some room \<and>
    r_state room \<noteq> LOBBY \<longrightarrow>
      (\<exists>msg. start_game s hdata dbnow w = emit (ToSid s) (Error msg) w)) \<and>
   (verify_host_and_get_room s hdata w = (Some room, w) \<and> r_state room \<noteq> LOBBY \<longrightarrow>
      start_game s hdata dbnow w
        = emit (ToSid s) (Error ''start_game allowed only in LOBBY'') w) \<and>
   (present (hr_pin hdata) = Some pin \<and> get_room_by_pin w pin = Some room \<and>
    r_state room \<noteq> RESULTS \<longrightarrow>
      (\<exists>msg. next_question s hdata dbnow w = emit (ToSid s) (Error msg) w)) \<and>
   (verify_host_and_get_room s hdata w = (Some room, w) \<and> r_state room \<noteq> RESULTS \<longrightarrow>
      next_question s hdata dbnow w
        = emit (ToSid s) (Error ''next_question allowed only in RESULTS'') w) \<and>
   (ad_pin adata = Some pin \<and> get_room_by_pin w pin = Some room \<and>
    r_state room \<noteq> QUESTION \<longrightarrow>
      submit_answer U s adata t now dbnow w =
        w\<lparr>rate_limits := snd (is_rate_limited (''answer:'' @ s) ANSWER_RATE_LIMIT
                               ANSWER_RATE_WINDOW t (rate_limits w))\<rparr>)"
  using start_game_outside_guard [of hdata pin w room s dbnow]
    start_game_verified_outside_guard [of s hdata w room dbnow]
    next_question_outside_guard [of hdata pin w room s dbnow]
    next_question_verified_outside_guard [of s hdata w room dbnow]
    submit_answer_outside_guard [of adata pin w room U s t now dbnow]
  by blast


lemma verify_host_quiz:
  "verify_host_and_get_room ''s-host'' host_data quiz_world = (Some quiz_room, quiz_world)"
  "verify_host_and_get_room ''s-host'' host_data results_world = (Some results_room, results_world)"
  by (simp_all add: verify_host_and_get_room_def host_data_def present_def get_room_by_pin_def
        quiz_world_def results_world_def results_room_def quiz_room_def quiz_sockets_def)

lemma results_world_pin:
  "get_room_by_pin results_world ''123456'' = Some results_room"
  "r_state results_room = RESULTS" "r_state quiz_room = QUESTION"
  by (simp_all add: get_room_by_pin_def results_world_def results_room_def quiz_room_def)

text \<open>
  The claim that the caller of every refused action is sent an advisory fails for answers:
  Alice's answer to a room showing results is dropped without any event.
\<close>

theorem answer_outside_question_counterexample:
  "get_room_by_pin results_world ''123456'' = Some results_room \<and>
   r_state results_room = RESULTS \<and>
   outbox (submit_answer Some ''s-alice'' alice_answer 16 14000000 14000001 results_world) = []"
proof -
  have "submit_answer Some ''s-alice'' alice_answer 16 14000000 14000001 results_world =
          results_world\<lparr>rate_limits := snd (is_rate_limited (''answer:'' @ ''s-alice'')
             ANSWER_RATE_LIMIT ANSWER_RATE_WINDOW 16 (rate_limits results_world))\<rparr>"
    by (rule submit_answer_outside_guard [of _ "''123456''" _ results_room])
       (simp_all add: alice_answer_def results_world_pin)
  then show ?thesis
    by (simp add: results_world_pin) (simp add: results_world_def quiz_world_def)
qed

theorem outside_guard_state_witness:
  "verify_host_and_get_room ''s-host'' host_data results_world = (Some results_room, results_world) \<and>
   r_state results_room = RESULTS \<and>
   start_game ''s-host'' host_data 14000001 results_world
     = emit (ToSid ''s-host'') (Error ''start_game allowed only in LOBBY'') results_world \<and>
   verify_host_and_get_room ''s-host'' host_data quiz_world = (Some quiz_room, quiz_world) \<and>
   r_state quiz_room = QUESTION \<and>
   next_question ''s-host'' host_data 14000001 quiz_world
     = emit (ToSid ''s-host'') (Error ''next_question allowed only in RESULTS'') quiz_world \<and>
   submit_answer Some ''s-alice'' alice_answer 16 14000000 14000001 results_world =
     results_world\<lparr>rate_limits := snd (is_rate_limited (''answer:'' @ ''s-alice'')
        ANSWER_RATE_LIMIT ANSWER_RATE_WINDOW 16 (rate_limits results_world))\<rparr>"
proof -
  have a: "ad_pin alice_answer = Some ''123456''" by (simp add: alice_answer_def)
  have b: "r_state results_room \<noteq> LOBBY" "r_state results_room \<noteq> QUESTION"
    "r_state quiz_room \<noteq> RESULTS"
    by (simp_all add: results_world_pin)
  from a b verify_host_quiz results_world_pin
    outside_guard_state [where hdata = host_data and pin = "''123456''" and w = results_world
      and room = results_room and s = "''s-host''" and dbnow = 14000001]
    outside_guard_state [where hdata = host_data and pin = "''123456''" and w = results_world
      and room = results_room and s = "''s-alice''" and dbnow = 14000001
      and adata = alice_answer and U = Some and t = 16 and now = 14000000]
    outside_guard_state [where hdata = host_data and pin = "''123456''" and w = quiz_world
      and room = quiz_room and s = "''s-host''" and dbnow = 14000001]
  show ?thesis by simp
qed


subsection \<open>Reconnecting\<close>

lemma reconnect_player_ok:
  assumes "present (pr_pin data) = Some pin" and "present (pr_player_token data) = Some tok_s"
    and "get_room_by_pin w pin = Some room" and "U tok_s = Some tok"
    and "find (\<lambda>p. p_room_id p = r_id room \<and> p_player_token p = tok) (players w) = Some player"
  shows "reconnect_player U s data dbnow w =
           w\<lparr>rooms := map (\<lambda>r. if r_id r = r_id room then r\<lparr>r_last_activity_at := dbnow\<rparr> else r)
                      (rooms w),
             players := map (\<lambda>p. if p_id p = p_id player
                                   then p\<lparr>p_connected := True, p_last_seen_at := dbnow\<rparr> else p)
                        (players w),
             socket_index := (socket_index w)
                (s \<mapsto> \<lparr>m_pin = pin, m_role = Player, m_token = tok\<rparr>),
             groups := insert (s, pin) (groups w),
             outbox := outbox w @
               [(ToSid s, Reconnected
                   \<lparr>pp_state = r_state room, pp_score = p_score player,
                    pp_current_question_index = r_current_question_index room,
                    pp_question = hydrate_question room,
                    pp_results = hydrate_results
                      (w\<lparr>players := map (\<lambda>p. if p_id p = p_id player
                                   then p\<lparr>p_connected := True, p_last_seen_at := dbnow\<rparr> else p)
                        (players w)\<rparr>) room\<rparr>)]\<rparr>"
  using assms
  by (simp add: reconnect_player_def Let_def update_players_def touch_room_activity_def
        update_rooms_def join_room_def emit_def hydrate_results_def leaderboard_for_room_id_def)

lemma reconnect_host_ok:
  assumes "present (hr_pin data) = Some pin" and "present (hr_host_token data) = Some tok_s"
    and "get_room_by_pin w pin = Some room" and "U tok_s = Some tok"
    and "r_host_token room = tok"
  shows "reconnect_host U s data dbnow w =
           w\<lparr>rooms := map (\<lambda>r. if r_id r = r_id room
                               then r\<lparr>r_host_connected := True, r_host_disconnected_at := None,
                                      r_last_activity_at := dbnow\<rparr> else r)
                      (rooms w),
             socket_index := (socket_index w)
                (s \<mapsto> \<lparr>m_pin = pin, m_role = Host, m_token = tok\<rparr>),
             groups := insert (s, pin) (groups w),
             outbox := outbox w @
               [(ToSid s, HostReconnected
                   \<lparr>hp_state = r_state room,
                    hp_current_question_index = r_current_question_index room,
                    hp_players = leaderboard_for_room_id w (r_id room),
                    hp_question = hydrate_question room,
                    hp_results = hydrate_results w room\<rparr>)]\<rparr>"
  using assms
  by (simp add: reconnect_host_def Let_def update_rooms_def join_room_def emit_def
        hydrate_results_def leaderboard_for_room_id_def)


lemma reconnect_player_core:
  assumes "present (pr_pin data) = Some pin" and "present (pr_player_token data) = Some tok_s"
    and "get_room_by_pin w pin = Some room" and "U tok_s = Some tok"
    and "find (\<lambda>p. p_room_id p = r_id room \<and> p_player_token p = tok) (players w) = Some player"
  shows "map room_core (rooms (reconnect_player U s data dbnow w)) = map room_core (rooms w)"
  unfolding reconnect_player_ok [where U = U, OF assms] by (simp add: room_core_def)

lemma reconnect_host_core:
  assumes "present (hr_pin data) = Some pin" and "present (hr_host_token data) = Some tok_s"
    and "get_room_by_pin w pin = Some room" and "U tok_s = Some tok"
    and "r_host_token room = tok"
  shows "map room_core (rooms (reconnect_host U s data dbnow w)) = map room_core (rooms w)"
  unfolding reconnect_host_ok [where U = U, OF assms] by (simp add: room_core_def)

text \<open>
  C6, as the code has it. A successful \<^verbatim>\<open>reconnect_player\<close> sets the room's
  \<^verbatim>\<open>last_activity_at\<close>, sets the player's \<^verbatim>\<open>connected\<close> and \<^verbatim>\<open>last_seen_at\<close>, registers
  the connection, joins it to the group of the pin and sends the payload; a successful
  \<^verbatim>\<open>reconnect_host\<close> sets the room's \<^verbatim>\<open>host_connected\<close>, clears
  \<^verbatim>\<open>host_disconnected_at\<close>, sets \<^verbatim>\<open>last_activity_at\<close>, registers, joins and sends. Nothing
  else changes: in every room the id, pin, host token, state, question index, both
  question times, the creation time and the closing time are as before.
\<close>

theorem reconnect_effects:
  "(present (pr_pin pdata) = Some pin \<and> present (pr_player_token pdata) = Some tok_s \<and>
    get_room_by_pin w pin = Some room \<and> U tok_s = Some tok \<and>
    find (\<lambda>p. p_room_id p = r_id room \<and> p_player_token p = tok) (players w) = Some player \<longrightarrow>
      reconnect_player U s pdata dbnow w =
        w\<lparr>rooms := map (\<lambda>r. if r_id r = r_id room then r\<lparr>r_last_activity_at := dbnow\<rparr> else r)
                   (rooms w),
          players := map (\<lambda>p. if p_id p = p_id player
                                then p\<lparr>p_connected := True, p_last_seen_at := dbnow\<rparr> else p)
                     (players w),
          socket_index := (socket_index w)
             (s \<mapsto> \<lparr>m_pin = pin, m_role = Player, m_token = tok\<rparr>),
          groups := insert (s, pin) (groups w),
          outbox := outbox w @
            [(ToSid s, Reconnected
                \<lparr>pp_state = r_state room, pp_score = p_score player,
                 pp_current_question_index = r_current_question_index room,
                 pp_question = hydrate_question room,
                 pp_results = hydrate_results
                   (w\<lparr>players := map (\<lambda>p. if p_id p = p_id player
                                then p\<lparr>p_connected := True, p_last_seen_at := dbnow\<rparr> else p)
                     (players w)\<rparr>) room\<rparr>)]\<rparr> \<and>
      map room_core (rooms (reconnect_player U s pdata dbnow w)) = map room_core (rooms w)) \<and>
   (present (hr_pin hdata) = Some pin \<and> present (hr_host_token hdata) = Some tok_s \<and>
    get_room_by_pin w pin = Some room \<and> U tok_s = Some tok \<and> r_host_token room = tok \<longrightarrow>
      reconnect_host U s hdata dbnow w =
        w\<lparr>rooms := map (\<lambda>r. if r_id r = r_id room
                            then r\<lparr>r_host_connected := True, r_host_disconnected_at := None,
                                   r_last_activity_at := dbnow\<rparr> else r)
                   (rooms w),
          socket_index := (socket_index w)
             (s \<mapsto> \<lparr>m_pin = pin, m_role = Host, m_token = tok\<rparr>),
          groups := insert (s, pin) (groups w),
          outbox := outbox w @
            [(ToSid s, HostReconnected
                \<lparr>hp_state = r_state room,
                 hp_current_question_index = r_current_question_index room,
                 hp_players = leaderboard_for_room_id w (r_id room),
                 hp_question = hydrate_question room,
                 hp_results = hydrate_results w room\<rparr>)]\<rparr> \<and>
      map room_core (rooms (reconnect_host U s hdata dbnow w)) = map room_core (rooms w))"
  apply (intro conjI impI; elim conjE)
     apply (rule reconnect_player_ok; assumption)
    apply (rule reconnect_player_core; assumption)
   apply (rule reconnect_host_ok; assumption)
  apply (rule reconnect_host_core; assumption)
  done

lemma alice_reconnects:
  "present (pr_pin alice_ref) = Some ''123456''"
  "present (pr_player_token alice_ref) = Some ''alice-1''"
  "get_room_by_pin quiz_world ''123456'' = Some quiz_room"
  "find (\<lambda>p. p_room_id p = r_id quiz_room \<and> p_player_token p = ''alice-1'') (players quiz_world)
     = Some alice"
  by (simp_all add: alice_ref_def present_def get_room_by_pin_def quiz_world_def quiz_room_def
        alice_def bob_def)

text \<open>
  The claim that no field of the room record is written fails: after Alice's reconnection
  at second 7 the room's \<^verbatim>\<open>last_activity_at\<close> is no longer 0.
\<close>

theorem reconnect_touches_room_counterexample:
  "r_last_activity_at quiz_room = 0 \<and>
   rooms (reconnect_player Some ''s-again'' alice_ref 7000000 quiz_world)
     = [quiz_room\<lparr>r_last_activity_at := 7000000\<rparr>]"
proof -
  have u: "Some ''alice-1'' = Some ''alice-1''" by simp
  show ?thesis
    unfolding reconnect_player_ok [where U = Some, OF alice_reconnects(1,2,3) u alice_reconnects(4)]
    by (simp add: quiz_world_def quiz_room_def)
qed

theorem reconnect_effects_witness:
  "present (pr_pin alice_ref) = Some ''123456'' \<and>
   present (pr_player_token alice_ref) = Some ''alice-1'' \<and>
   get_room_by_pin quiz_world ''123456'' = Some quiz_room \<and>
   find (\<lambda>p. p_room_id p = r_id quiz_room \<and> p_player_token p = ''alice-1'') (players quiz_world)
     = Some alice \<and>
   map room_core (rooms (reconnect_player Some ''s-again'' alice_ref 7000000 quiz_world))
     = map room_core (rooms quiz_world) \<and>
   present (hr_pin host_data) = Some ''123456'' \<and>
   present (hr_host_token host_data) = Some ''host-1'' \<and>
   r_host_token quiz_room = ''host-1'' \<and>
   map room_core (rooms (reconnect_host Some ''s-again'' host_data 7000000 quiz_world))
     = map room_core (rooms quiz_world)"
proof -
  have h: "present (hr_pin host_data) = Some ''123456''"
    "present (hr_host_token host_data) = Some ''host-1''" "r_host_token quiz_room = ''host-1''"
    by (simp_all add: host_data_def present_def quiz_room_def)
  have u: "Some ''alice-1'' = Some ''alice-1''" "Some ''host-1'' = Some ''host-1''" by simp_all
  from alice_reconnects h
    reconnect_effects [where pdata = alice_ref and pin = "''123456''" and tok_s = "''alice-1''"
      and w = quiz_world and room = quiz_room and U = Some and tok = "''alice-1''"
      and player = alice and s = "''s-again''" and dbnow = 7000000]
    reconnect_effects [where hdata = host_data and pin = "''123456''" and tok_s = "''host-1''"
      and w = quiz_world and room = quiz_room and U = Some and tok = "''host-1''"
      and s = "''s-again''" and dbnow = 7000000]
  show ?thesis by (simp add: room_core_def)
qed


subsection \<open>Closing a room\<close>

lemma get_room_by_pin_SomeD:
  "get_room_by_pin w pin = Some room \<Longrightarrow>
   room \<in> set (rooms w) \<and> r_pin room = pin \<and> r_closed_at room = None"
  by (auto simp: get_room_by_pin_def find_Some_iff)

lemma same_pin_same_room:
  "distinct (map r_pin rs) \<Longrightarrow> r \<in> set rs \<Longrightarrow> r' \<in> set rs \<Longrightarrow> r_pin r = r_pin r' \<Longrightarrow> r = r'"
  by (meson distinct_map inj_onD)

lemma same_id_same_room:
  "distinct (map r_id rs) \<Longrightarrow> r \<in> set rs \<Longrightarrow> r' \<in> set rs \<Longrightarrow> r_id r = r_id r' \<Longrightarrow> r = r'"
  by (meson distinct_map inj_onD)

lemma close_room_ok:
  "get_room_by_pin w pin = Some room \<Longrightarrow>
   close_room pin reason dbnow w =
     w\<lparr>rooms := map (\<lambda>r. if r_id r = r_id room
                         then r\<lparr>r_closed_at := Some dbnow, r_state := FINISHED,
                                r_last_activity_at := dbnow\<rparr> else r) (rooms w),
       outbox := outbox w @ [(ToRoom pin, RoomClosed reason)]\<rparr>"
  by (simp add: close_room_def update_rooms_def emit_def)

lemma find_None_map:
  "(\<And>r. r \<in> set rs \<Longrightarrow> \<not> P (g r)) \<Longrightarrow> find P (map g rs) = None"
  by (induction rs) simp_all

lemma closed_room_gone:
  assumes "distinct (map r_pin (rooms w))" and "get_room_by_pin w pin = Some room"
  shows "get_room_by_pin (close_room pin reason dbnow w) pin = None"
proof -
  from get_room_by_pin_SomeD [OF assms(2)]
  have mem: "room \<in> set (rooms w)" and pin: "r_pin room = pin" by simp_all
  have "\<not> (r_pin (if r_id r = r_id room
                   then r\<lparr>r_closed_at := Some dbnow, r_state := FINISHED,
                          r_last_activity_at := dbnow\<rparr> else r) = pin \<and>
           r_closed_at (if r_id r = r_id room
                   then r\<lparr>r_closed_at := Some dbnow, r_state := FINISHED,
                          r_last_activity_at := dbnow\<rparr> else r) = None)"
    if "r \<in> set (rooms w)" for r
    using same_pin_same_room [OF assms(1) that mem] pin by auto
  then show ?thesis
    unfolding close_room_ok [OF assms(2)] get_room_by_pin_def
    by (simp add: find_None_map)
qed

lemma closed_room_not_locked:
  assumes "get_room_by_pin w pin = Some room"
  shows "find (\<lambda>r. r_id r = r_id room \<and> r_state r = QUESTION)
           (rooms (close_room pin reason dbnow w)) = None"
  unfolding close_room_ok [OF assms] by (simp add: find_None_map)

lemma close_room_results:
  "filter is_question_results (outbox (close_room pin reason t w))
     = filter is_question_results (outbox w)"
  by (simp add: close_room_def emit_def update_rooms_def split: option.splits)

lemma close_each_results:
  "filter is_question_results (outbox (close_each pins t w))
     = filter is_question_results (outbox w)"
  by (induction pins arbitrary: w) (simp_all add: close_room_results)

text \<open>
  C10. \<^verbatim>\<open>close_room\<close> on the pin of an open room, whatever its state, sets the row to
  \<open>FINISHED\<close> with \<^verbatim>\<open>closed_at\<close> and \<^verbatim>\<open>last_activity_at\<close> at the store's clock, and
  sends \<^verbatim>\<open>room_closed\<close> to the room: nothing else changes, no player and no answer.
  Afterwards \<^verbatim>\<open>finish_question_if_due\<close> for that pin does nothing, and neither does the
  conditional update of an attempt that had passed its tests before the room was closed:
  the answers of the question in flight are never scored. A round of the cleanup task
  changes no player and no answer and sends no \<^verbatim>\<open>question_results\<close>. Pins are unique in
  the table \<^verbatim>\<open>rooms\<close> (\<^verbatim>\<open>pin VARCHAR(6) UNIQUE\<close>).
\<close>

theorem close_room_skips_scoring:
  assumes "distinct (map r_pin (rooms w))" and "get_room_by_pin w pin = Some room"
  shows "close_room pin reason dbnow w =
           w\<lparr>rooms := map (\<lambda>r. if r_id r = r_id room
                               then r\<lparr>r_closed_at := Some dbnow, r_state := FINISHED,
                                      r_last_activity_at := dbnow\<rparr> else r) (rooms w),
             outbox := outbox w @ [(ToRoom pin, RoomClosed reason)]\<rparr> \<and>
         players (close_room pin reason dbnow w) = players w \<and>
         answers (close_room pin reason dbnow w) = answers w \<and>
         finish_question_if_due pin now t (close_room pin reason dbnow w)
           = (None, close_room pin reason dbnow w) \<and>
         finalize_locked (r_id room) pin t (close_room pin reason dbnow w)
           = (None, close_room pin reason dbnow w) \<and>
         players (cleanup_round dbnow w) = players w \<and>
         answers (cleanup_round dbnow w) = answers w \<and>
         filter is_question_results (outbox (cleanup_round dbnow w))
           = filter is_question_results (outbox w)"
proof -
  have "finish_question_if_due pin now t (close_room pin reason dbnow w)
          = (None, close_room pin reason dbnow w)"
    by (simp add: finish_question_if_due_def finalize_guard_def closed_room_gone [OF assms])
  moreover have "finalize_locked (r_id room) pin t (close_room pin reason dbnow w)
          = (None, close_room pin reason dbnow w)"
    by (rule finalize_locked_no_row) (rule closed_room_not_locked [OF assms(2)])
  moreover have "filter is_question_results (outbox (cleanup_round dbnow w))
           = filter is_question_results (outbox w)"
    by (simp add: cleanup_round_def close_each_results)
  ultimately show ?thesis using close_room_ok [OF assms(2), of reason dbnow] by simp
qed

lemma abandoned_closed:
  "cleanup_round 700000000 abandoned_world = close_room ''123456'' ''host_timeout'' 700000000 abandoned_world"
  by (simp add: cleanup_round_def abandoned_world_def quiz_world_def quiz_room_def
        ROOM_TTL_SECONDS_def seconds_def)

theorem close_room_skips_scoring_witness:
  "distinct (map r_pin (rooms abandoned_world)) \<and>
   get_room_by_pin abandoned_world ''123456''
     = Some (quiz_room\<lparr>r_host_connected := False, r_host_disconnected_at := Some 9000000\<rparr>) \<and>
   r_state quiz_room = QUESTION \<and>
   answers abandoned_world = quiz_answers \<and>
   rooms (cleanup_round 700000000 abandoned_world)
     = [quiz_room\<lparr>r_host_connected := False, r_host_disconnected_at := Some 9000000,
                   r_closed_at := Some 700000000, r_state := FINISHED,
                   r_last_activity_at := 700000000\<rparr>] \<and>
   map p_score (players (cleanup_round 700000000 abandoned_world)) = [0, 0] \<and>
   outbox (cleanup_round 700000000 abandoned_world)
     = [(ToRoom ''123456'', RoomClosed ''host_timeout'')] \<and>
   finish_question_if_due ''123456'' 701000000 701000000
       (cleanup_round 700000000 abandoned_world)
     = (None, cleanup_round 700000000 abandoned_world) \<and>
   finalize_locked 1 ''123456'' 701000000 (cleanup_round 700000000 abandoned_world)
     = (None, cleanup_round 700000000 abandoned_world)"
proof -
  let ?room = "quiz_room\<lparr>r_host_connected := False, r_host_disconnected_at := Some 9000000\<rparr>"
  let ?w = "close_room ''123456'' ''host_timeout'' 700000000 abandoned_world"
  have a: "distinct (map r_pin (rooms abandoned_world))" by (simp add: abandoned_world_def)
  have b: "get_room_by_pin abandoned_world ''123456'' = Some ?room"
    by (simp add: get_room_by_pin_def abandoned_world_def quiz_room_def)
  have c: "r_state quiz_room = QUESTION" by (simp add: quiz_room_def)
  have an: "answers abandoned_world = quiz_answers"
    by (simp add: abandoned_world_def quiz_world_def)
  have i: "r_id ?room = 1" by (simp add: quiz_room_def)
  note t = close_room_skips_scoring [OF a b, where reason = "''host_timeout''"
      and dbnow = 700000000 and now = 701000000 and t = 701000000]
  from t have e: "?w =
       abandoned_world
         \<lparr>rooms := map (\<lambda>r. if r_id r = r_id ?room
                             then r\<lparr>r_closed_at := Some 700000000, r_state := FINISHED,
                                    r_last_activity_at := 700000000\<rparr> else r)
                      (rooms abandoned_world),
          outbox := outbox abandoned_world @ [(ToRoom ''123456'', RoomClosed ''host_timeout'')]\<rparr>"
    by (rule conjunct1)
  have r: "rooms ?w = [quiz_room\<lparr>r_host_connected := False, r_host_disconnected_at := Some 9000000,
                   r_closed_at := Some 700000000, r_state := FINISHED,
                   r_last_activity_at := 700000000\<rparr>]"
    by (subst e) (simp add: abandoned_world_def)
  have o: "outbox ?w = [(ToRoom ''123456'', RoomClosed ''host_timeout'')]"
    by (subst e) (simp add: abandoned_world_def quiz_world_def)
  have p: "map p_score (players ?w) = [0, 0]"
    using t by (simp add: abandoned_world_def quiz_world_def alice_def bob_def)
  from t have f: "finish_question_if_due ''123456'' 701000000 701000000 ?w = (None, ?w)"
    by blast
  from t have g: "finalize_locked (r_id ?room) ''123456'' 701000000 ?w = (None, ?w)"
    by blast
  then have g': "finalize_locked 1 ''123456'' 701000000 ?w = (None, ?w)"
    unfolding i .
  from a b c an r o p f g' show ?thesis unfolding abandoned_closed by blast
qed


end
